theory Spec2Isabelle
  imports Complex_Main
begin

section \<open>Python values used by tinyaudio\_cli.py\<close>

text \<open>
  The development embeds \<^verbatim>\<open>src/tinyaudio_cli.py\<close>. Python integers are \<^typ>\<open>int\<close>,
  strings are \<^typ>\<open>string\<close> (ASCII; the Unicode digits and spaces that \<^verbatim>\<open>\d\<close> and
  \<^verbatim>\<open>\s\<close> also accept are outside the model), and every \<^verbatim>\<open>raise\<close> is a value
  \<open>Inl e\<close> of a sum type. An exception carries its Python class and the literal
  part of its message (the text before the first interpolated field).
\<close>

datatype error =
    ValueError string
  | RuntimeError string
  | OverflowError
  | ZeroDivisionError
  | JSONDecodeError
  | KeyError string
  | OSError string
  | UnicodeEncodeError

subsection \<open>Floats\<close>

text \<open>
  A Python float is an IEEE-754 binary64 value: a finite rational, an infinity
  (\<open>Infinity True\<close> is \<open>+inf\<close>) or NaN. The sign of zero is not represented; no
  function below depends on it. \<open>fl\<close> rounds an exact rational to the nearest
  binary64 value, ties to even, with gradual underflow and overflow to infinity.
\<close>

datatype pyfloat = Finite rat | Infinity bool | NaN

fun ilog2 :: "int \<Rightarrow> int" where
  "ilog2 n = (if n \<le> 1 then 0 else 1 + ilog2 (n div 2))"

declare ilog2.simps [simp del]

definition ceil_log2 :: "int \<Rightarrow> int" where
  "ceil_log2 n = (if n \<le> 1 then 0 else ilog2 (n - 1) + 1)"

definition floor_log2 :: "rat \<Rightarrow> int" where
  "floor_log2 a = (if 1 \<le> a then ilog2 \<lfloor>a\<rfloor> else - ceil_log2 \<lceil>1 / a\<rceil>)"

definition pow2 :: "int \<Rightarrow> rat" where
  "pow2 e = (if 0 \<le> e then 2 ^ nat e else 1 / 2 ^ nat (- e))"

definition round_half_even :: "rat \<Rightarrow> int" where
  "round_half_even x =
     (let f = \<lfloor>x\<rfloor>; r = x - of_int f
      in if r < 1 / 2 then f else if 1 / 2 < r then f + 1
         else if even f then f else f + 1)"

definition fl :: "rat \<Rightarrow> pyfloat" where
  "fl x =
     (if x = 0 then Finite 0
      else let a = \<bar>x\<bar>;
               q = pow2 (max (floor_log2 a - 52) (- 1074));
               r = of_int (round_half_even (a / q)) * q
           in if 2 ^ 1024 \<le> r then Infinity (0 < x)
              else Finite (if 0 < x then r else - r))"

text \<open>\<^verbatim>\<open>float(n)\<close> for an integer, as the mixed operators \<^verbatim>\<open>int * float\<close> apply it.\<close>

definition float_of_int :: "int \<Rightarrow> error + pyfloat" where
  "float_of_int n =
     (case fl (of_int n) of Finite r \<Rightarrow> Inr (Finite r) | _ \<Rightarrow> Inl OverflowError)"

fun fmul :: "pyfloat \<Rightarrow> pyfloat \<Rightarrow> pyfloat" where
  "fmul (Finite a) (Finite b) = fl (a * b)"
| "fmul (Finite a) (Infinity s) = (if a = 0 then NaN else Infinity (s = (0 < a)))"
| "fmul (Infinity s) (Finite b) = (if b = 0 then NaN else Infinity (s = (0 < b)))"
| "fmul (Infinity s) (Infinity t) = Infinity (s = t)"
| "fmul NaN _ = NaN"
| "fmul _ NaN = NaN"

fun fdiv :: "pyfloat \<Rightarrow> pyfloat \<Rightarrow> error + pyfloat" where
  "fdiv x (Finite b) =
     (if b = 0 then Inl ZeroDivisionError
      else case x of
             Finite a \<Rightarrow> Inr (fl (a / b))
           | Infinity s \<Rightarrow> Inr (Infinity (s = (0 < b)))
           | NaN \<Rightarrow> Inr NaN)"
| "fdiv (Finite a) (Infinity t) = Inr (Finite 0)"
| "fdiv (Infinity s) (Infinity t) = Inr NaN"
| "fdiv NaN (Infinity t) = Inr NaN"
| "fdiv x NaN = Inr NaN"

text \<open>\<^verbatim>\<open>int(x)\<close> truncates towards zero and raises on infinities and NaN.\<close>

fun int_of_float :: "pyfloat \<Rightarrow> error + int" where
  "int_of_float (Finite r) = Inr (if 0 \<le> r then \<lfloor>r\<rfloor> else \<lceil>r\<rceil>)"
| "int_of_float (Infinity s) = Inl OverflowError"
| "int_of_float NaN = Inl (ValueError ''cannot convert float NaN to integer'')"

text \<open>True division \<^verbatim>\<open>a / b\<close> of two integers.\<close>

definition int_truediv :: "int \<Rightarrow> int \<Rightarrow> error + pyfloat" where
  "int_truediv a b =
     (if b = 0 then Inl ZeroDivisionError
      else case fl (of_int a / of_int b) of
             Finite r \<Rightarrow> Inr (Finite r)
           | _ \<Rightarrow> Inl OverflowError)"

text \<open>\<^verbatim>\<open>math.isfinite\<close> and the comparison \<^verbatim>\<open>x <= 0\<close>.\<close>

fun isfinite :: "pyfloat \<Rightarrow> bool" where
  "isfinite (Finite r) = True"
| "isfinite (Infinity s) = False"
| "isfinite NaN = False"

fun fle0 :: "pyfloat \<Rightarrow> bool" where
  "fle0 (Finite r) = (r \<le> 0)"
| "fle0 (Infinity s) = (\<not> s)"
| "fle0 NaN = False"

subsection \<open>Truthiness\<close>

text \<open>
  \<^verbatim>\<open>if x:\<close> and \<^verbatim>\<open>x or d\<close> on an optional integer or string: \<^verbatim>\<open>None\<close>, \<^verbatim>\<open>0\<close>
  and the empty string are false.
\<close>

fun truthy_int :: "int option \<Rightarrow> int option" where
  "truthy_int None = None"
| "truthy_int (Some n) = (if n = 0 then None else Some n)"

fun truthy_str :: "string option \<Rightarrow> string option" where
  "truthy_str None = None"
| "truthy_str (Some s) = (if s = [] then None else Some s)"

definition int_or :: "int option \<Rightarrow> int \<Rightarrow> int" where
  "int_or x d = (case truthy_int x of Some n \<Rightarrow> n | None \<Rightarrow> d)"

definition str_or :: "string option \<Rightarrow> string \<Rightarrow> string" where
  "str_or x d = (case truthy_str x of Some s \<Rightarrow> s | None \<Rightarrow> d)"

subsection \<open>Digits and regular expressions\<close>

definition is_space :: "char \<Rightarrow> bool" where
  "is_space c = (of_char c \<in> {9, 10, 11, 12, 13, 28, 29, 30, 31, 32 :: nat})"

definition is_digit :: "char \<Rightarrow> bool" where
  "is_digit c = (48 \<le> (of_char c :: nat) \<and> (of_char c :: nat) \<le> 57)"

definition digit_val :: "char \<Rightarrow> int" where
  "digit_val c = int (of_char c) - 48"

text \<open>
  \<^verbatim>\<open>int(s)\<close> on a string of decimal digits. The interpreter's limit on the
  number of digits it converts (4300 by default in recent versions) is not
  modelled.
\<close>

definition py_int :: "string \<Rightarrow> int" where
  "py_int ds = foldl (\<lambda>acc c. 10 * acc + digit_val c) 0 ds"

text \<open>
  \<^verbatim>\<open>float(s)\<close> on a string drawn from \<^verbatim>\<open>[\d.]+\<close>: digits with at most one point
  and at least one digit, correctly rounded.
\<close>

definition py_float_digits :: "string \<Rightarrow> error + pyfloat" where
  "py_float_digits s =
     (let ip = takeWhile is_digit s; rest = dropWhile is_digit s
      in case rest of
           [] \<Rightarrow> if ip = [] then Inl (ValueError ''could not convert string to float'')
                 else Inr (fl (of_int (py_int ip)))
         | c # fp \<Rightarrow>
             if c = CHR ''.'' \<and> list_all is_digit fp \<and> (ip \<noteq> [] \<or> fp \<noteq> [])
             then Inr (fl (of_int (py_int (ip @ fp)) / 10 ^ length fp))
             else Inl (ValueError ''could not convert string to float''))"

definition bind_err :: "error + 'a \<Rightarrow> ('a \<Rightarrow> error + 'b) \<Rightarrow> error + 'b" where
  "bind_err m f = (case m of Inl e \<Rightarrow> Inl e | Inr x \<Rightarrow> f x)"

section \<open>Helpers\<close>

subsection \<open>human\_to\_bytes (lines 78--88)\<close>

definition is_numchar :: "char \<Rightarrow> bool" where
  "is_numchar c = (is_digit c \<or> c = CHR ''.'')"

definition upper_char :: "char \<Rightarrow> char" where
  "upper_char c =
     (case map_of (zip ''abcdefghijklmnopqrstuvwxyz'' ''ABCDEFGHIJKLMNOPQRSTUVWXYZ'') c of
        Some d \<Rightarrow> d
      | None \<Rightarrow> c)"

text \<open>The optional group \<^verbatim>\<open>([KMG]?B)?\<close> under \<^verbatim>\<open>re.IGNORECASE\<close>, and the rest.\<close>

fun match_unit :: "string \<Rightarrow> string option \<times> string" where
  "match_unit (c # d # r) =
     (if upper_char c \<in> {CHR ''K'', CHR ''M'', CHR ''G''} \<and> upper_char d = CHR ''B''
      then (Some [c, d], r)
      else if upper_char c = CHR ''B'' then (Some [c], d # r)
      else (None, c # d # r))"
| "match_unit [c] = (if upper_char c = CHR ''B'' then (Some [c], []) else (None, [c]))"
| "match_unit [] = (None, [])"

text \<open>
  \<^verbatim>\<open>re.match(r"^\s*([\d.]+)\s*([KMG]?B)?\s*$", s, re.IGNORECASE)\<close>: the three
  character classes are disjoint, so the greedy match is the only one. The
  result holds groups 1 and 2.
\<close>

definition match_size :: "string \<Rightarrow> (string \<times> string option) option" where
  "match_size s =
     (let s1 = dropWhile is_space s;
          num = takeWhile is_numchar s1;
          s2 = dropWhile is_space (dropWhile is_numchar s1)
      in if num = [] then None
         else case match_unit s2 of
                (u, s3) \<Rightarrow> if dropWhile is_space s3 = [] then Some (num, u) else None)"

definition scale :: "(string \<times> int) list" where
  "scale = [(''B'', 1), (''KB'', 1024), (''MB'', 1024 ^ 2), (''GB'', 1024 ^ 3)]"

definition human_to_bytes :: "string \<Rightarrow> error + int" where
  "human_to_bytes s =
     (case match_size s of
        None \<Rightarrow> Inl (ValueError ''Could not parse size: '')
      | Some (num, u) \<Rightarrow>
          bind_err (py_float_digits num) (\<lambda>val.
            let unit = map upper_char (case u of Some x \<Rightarrow> x | None \<Rightarrow> ''B'')
            in case map_of scale unit of
                 None \<Rightarrow> Inl (ValueError ''Unsupported unit: '')
               | Some k \<Rightarrow>
                   bind_err (float_of_int k) (\<lambda>kf. int_of_float (fmul val kf))))"

subsection \<open>bytes\_to\_human (lines 91--97)\<close>

text \<open>
  The formatted text is not modelled, only whether the call raises: the first
  \<^verbatim>\<open>n /= 1024\<close> divides two integers, the later ones a float by an integer.
\<close>

definition bytes_to_human :: "int \<Rightarrow> error + unit" where
  "bytes_to_human n =
     (if n < 1024 then Inr () else bind_err (int_truediv n 1024) (\<lambda>_. Inr ()))"

subsection \<open>ffprobe\_duration (lines 100--128)\<close>

text \<open>
  The external prober's answer: its exit code and the JSON object that
  \<^verbatim>\<open>json.loads\<close> builds from its output (\<open>None\<close> when \<^verbatim>\<open>json.loads\<close> raises).
  A \<^verbatim>\<open>"duration"\<close> entry is held as what \<^verbatim>\<open>float\<close> makes of it: \<open>None\<close> when the
  key is absent, \<open>Some (Inl e)\<close> when \<^verbatim>\<open>float\<close> raises \<open>e\<close> on the value, else the
  float. \<open>info_format\<close> is \<open>None\<close> when the object has no \<^verbatim>\<open>"format"\<close> key;
  \<open>info_streams\<close> is empty when it has no \<^verbatim>\<open>"streams"\<close> key.
\<close>

type_synonym float_field = "(error + pyfloat) option"

record stream =
  s_codec_type :: "string option"
  s_duration :: float_field

record probe_info =
  info_format :: "float_field option"
  info_streams :: "stream list"

record probe_output =
  po_code :: int
  po_info :: "probe_info option"

text \<open>The \<^verbatim>\<open>for s in info.get("streams", [])\<close> loop with its \<^verbatim>\<open>break\<close>.\<close>

fun stream_loop :: "stream list \<Rightarrow> error + pyfloat option" where
  "stream_loop [] = Inr None"
| "stream_loop (s # ss) =
     (if s_codec_type s = Some ''audio'' \<and> s_duration s \<noteq> None
      then (case s_duration s of
              Some (Inl e) \<Rightarrow> Inl e
            | Some (Inr f) \<Rightarrow> Inr (Some f)
            | None \<Rightarrow> Inr None)
      else stream_loop ss)"

definition ffprobe_duration :: "probe_output \<Rightarrow> error + pyfloat" where
  "ffprobe_duration out =
     (if po_code out \<noteq> 0 then Inl (RuntimeError ''ffprobe failed for '')
      else case po_info out of
             None \<Rightarrow> Inl JSONDecodeError
           | Some info \<Rightarrow>
               bind_err
                 (case info_format info of
                    Some (Some (Inl e)) \<Rightarrow> Inl e
                  | Some (Some (Inr f)) \<Rightarrow> Inr (Some f)
                  | _ \<Rightarrow> stream_loop (info_streams info))
                 (\<lambda>dur. case dur of
                           None \<Rightarrow> Inl (RuntimeError ''Could not determine duration for '')
                         | Some f \<Rightarrow>
                             if \<not> isfinite f
                             then Inl (RuntimeError ''Could not determine duration for '')
                             else Inr f))"

subsection \<open>compute\_bitrate\_for\_target\_size (lines 131--141)\<close>

definition compute_bitrate_for_target_size :: "int \<Rightarrow> pyfloat \<Rightarrow> error + int" where
  "compute_bitrate_for_target_size target_bytes duration_sec =
     (if fle0 duration_sec then Inl (ValueError ''Duration must be positive'')
      else bind_err (float_of_int (target_bytes * 8)) (\<lambda>tb.
           let bits_available = fmul tb (fl (97 / 100))
           in bind_err (fdiv bits_available duration_sec) (\<lambda>q.
              bind_err (int_of_float q) (\<lambda>br.
                Inr (max 6000 (min br 512000))))))"

subsection \<open>normalize\_ext\_for\_codec (lines 144--153)\<close>

definition normalize_ext_for_codec :: "string \<Rightarrow> string" where
  "normalize_ext_for_codec codec =
     (if codec = ''opus'' then ''.opus''
      else if codec = ''aac'' then ''.m4a''
      else if codec = ''mp3'' then ''.mp3''
      else ''.m4a'')"

subsection \<open>The bitrate pattern (line 238)\<close>

text \<open>
  \<^verbatim>\<open>re.match(r"^\s*(\d+)\s*[kK]?\s*$", args.b)\<close>: the result is group 1 when the
  string matches.
\<close>

definition match_bitrate :: "string \<Rightarrow> string option" where
  "match_bitrate s =
     (let s1 = dropWhile is_space s;
          ds = takeWhile is_digit s1;
          s2 = dropWhile is_space (dropWhile is_digit s1);
          s3 = (case s2 of
                  c # r \<Rightarrow> if c = CHR ''k'' \<or> c = CHR ''K'' then r else s2
                | [] \<Rightarrow> [])
      in if ds \<noteq> [] \<and> dropWhile is_space s3 = [] then Some ds else None)"

section \<open>Presets and options\<close>

text \<open>An entry of \<^verbatim>\<open>PRESETS\<close> (lines 21--52); \<open>None\<close> is Python's \<^verbatim>\<open>None\<close>.\<close>

record preset_config =
  pc_samplerate :: int
  pc_channels :: int
  pc_bitrate_bps :: int
  pc_codec :: string
  pc_lufs :: "pyfloat option"
  pc_highpass :: "int option"
  pc_lowpass :: "int option"
  pc_description :: string

definition voice_preset :: preset_config where
  "voice_preset =
     \<lparr>pc_samplerate = 24000, pc_channels = 1, pc_bitrate_bps = 32000, pc_codec = ''opus'',
      pc_lufs = Some (Finite (- 16)), pc_highpass = Some 80, pc_lowpass = Some 12000,
      pc_description = ''Voice optimized - mono, 32kbps Opus (~70-90% smaller)''\<rparr>"

definition music_preset :: preset_config where
  "music_preset =
     \<lparr>pc_samplerate = 48000, pc_channels = 2, pc_bitrate_bps = 80000, pc_codec = ''opus'',
      pc_lufs = Some (Finite (- 14)), pc_highpass = None, pc_lowpass = None,
      pc_description = ''Music quality - stereo, 80kbps Opus (~40-60% smaller)''\<rparr>"

definition podcast_preset :: preset_config where
  "podcast_preset =
     \<lparr>pc_samplerate = 44100, pc_channels = 1, pc_bitrate_bps = 64000, pc_codec = ''opus'',
      pc_lufs = Some (Finite (- 16)), pc_highpass = Some 60, pc_lowpass = Some 15000,
      pc_description = ''Podcast - mono, 64kbps Opus (~50-75% smaller)''\<rparr>"

definition PRESETS :: "string \<rightharpoonup> preset_config" where
  "PRESETS = [''voice'' \<mapsto> voice_preset, ''music'' \<mapsto> music_preset,
              ''podcast'' \<mapsto> podcast_preset]"

text \<open>
  The \<^verbatim>\<open>args\<close> namespace that \<^verbatim>\<open>argparse\<close> builds (lines 340--392), with the four
  attributes \<^verbatim>\<open>ts\<close>, \<^verbatim>\<open>b\<close>, \<^verbatim>\<open>sr\<close>, \<^verbatim>\<open>ch\<close> that \<^verbatim>\<open>main\<close> adds. One object is
  shared by every job of a run; \<^verbatim>\<open>compress_audio\<close> writes to its \<^verbatim>\<open>lp\<close>.
  \<^verbatim>\<open>type=float\<close> options can hold any float, \<^verbatim>\<open>nan\<close> and \<^verbatim>\<open>inf\<close> included.
\<close>

record args =
  arg_preset :: string
  arg_output :: "string option"
  arg_suffix :: string
  arg_codec :: "string option"
  arg_bitrate :: "string option"
  arg_target_size :: "string option"
  arg_samplerate :: "int option"
  arg_channels :: "int option"
  arg_lufs :: "pyfloat option"
  arg_st :: bool
  arg_sth :: "pyfloat option"
  arg_sd :: "pyfloat option"
  arg_hp :: "int option"
  arg_lp :: "int option"
  arg_list_presets :: bool
  arg_ts :: "int option"
  arg_b :: "string option"
  arg_sr :: "int option"
  arg_ch :: "int option"

section \<open>Processing\<close>

subsection \<open>build\_filterchain (lines 158--187)\<close>

text \<open>
  A stage stands for the f-string the source appends to \<^verbatim>\<open>filters\<close>:
  \<open>Silenceremove dur thr\<close> for \<^verbatim>\<open>silenceremove=start_periods=1:...\<close>, \<open>Highpass hp\<close> for
  \<^verbatim>\<open>highpass=f={hp}\<close>, \<open>Lowpass lp\<close> for \<^verbatim>\<open>lowpass=f={lp}\<close> and \<open>Loudnorm l\<close> for
  \<^verbatim>\<open>loudnorm=I={float(lufs)}:LRA=11:TP=-1.5\<close>. The returned string is the stages
  joined by commas in list order, and \<^verbatim>\<open>""\<close> for the empty list. A number keeps
  its Python type, which decides how it prints.
\<close>

datatype pynum = PyInt int | PyFloat pyfloat

datatype stage =
    Silenceremove pynum pynum
  | Highpass int
  | Lowpass int
  | Loudnorm pyfloat

definition build_filterchain :: "args \<Rightarrow> preset_config \<Rightarrow> stage list" where
  "build_filterchain args preset_config =
     (let f1 = (if arg_st args
                then let thr = (case arg_sth args of
                                  Some t \<Rightarrow> PyFloat t
                                | None \<Rightarrow> PyInt (if arg_preset args = ''voice'' then - 50 else - 45));
                         dur = (case arg_sd args of
                                  Some d \<Rightarrow> PyFloat d
                                | None \<Rightarrow> PyFloat (if arg_preset args = ''voice''
                                                   then fl (1 / 2) else fl (4 / 5)))
                     in [Silenceremove dur thr]
                else []);
          hp = (case arg_hp args of Some h \<Rightarrow> Some h | None \<Rightarrow> pc_highpass preset_config);
          f2 = f1 @ (case truthy_int hp of Some h \<Rightarrow> [Highpass h] | None \<Rightarrow> []);
          lp = (case arg_lp args of Some l \<Rightarrow> Some l | None \<Rightarrow> pc_lowpass preset_config);
          f3 = f2 @ (case truthy_int lp of Some l \<Rightarrow> [Lowpass l] | None \<Rightarrow> []);
          lufs = (case arg_lufs args of Some l \<Rightarrow> Some l | None \<Rightarrow> pc_lufs preset_config)
      in f3 @ (case lufs of Some l \<Rightarrow> [Loudnorm l] | None \<Rightarrow> []))"

subsection \<open>Paths\<close>

text \<open>
  A \<^verbatim>\<open>pathlib.Path\<close> on POSIX: a root (\<^verbatim>\<open>""\<close>, \<^verbatim>\<open>"/"\<close> or \<^verbatim>\<open>"//"\<close>) and the
  components, with empty and \<^verbatim>\<open>"."\<close> components dropped when a string is
  parsed. Two paths are equal when both agree.
\<close>

datatype path = Path string "string list"

fun path_root :: "path \<Rightarrow> string" where
  "path_root (Path r ps) = r"

fun path_parts :: "path \<Rightarrow> string list" where
  "path_parts (Path r ps) = ps"

fun split_sep :: "char \<Rightarrow> string \<Rightarrow> string list" where
  "split_sep c [] = [[]]"
| "split_sep c (x # xs) =
     (if x = c then [] # split_sep c xs
      else case split_sep c xs of
             w # ws \<Rightarrow> (x # w) # ws
           | [] \<Rightarrow> [[x]])"

definition parse_parts :: "string \<Rightarrow> string list" where
  "parse_parts s = filter (\<lambda>w. w \<noteq> [] \<and> w \<noteq> ''.'') (split_sep CHR ''/'' s)"

definition root_of :: "string \<Rightarrow> string" where
  "root_of s =
     (if take 2 s = ''//'' \<and> take 3 s \<noteq> ''///'' then ''//''
      else if take 1 s = ''/'' then ''/''
      else [])"

definition path_of_string :: "string \<Rightarrow> path" where
  "path_of_string s = Path (root_of s) (parse_parts s)"

text \<open>\<^verbatim>\<open>p / s\<close>: an absolute right operand replaces the left one.\<close>

definition joinpath :: "path \<Rightarrow> string \<Rightarrow> path" where
  "joinpath p s =
     (if root_of s \<noteq> [] then path_of_string s
      else Path (path_root p) (path_parts p @ parse_parts s))"

definition path_name :: "path \<Rightarrow> string" where
  "path_name p = (if path_parts p = [] then [] else last (path_parts p))"

definition path_parent :: "path \<Rightarrow> path" where
  "path_parent p = (if path_parts p = [] then p else Path (path_root p) (butlast (path_parts p)))"

text \<open>\<^verbatim>\<open>str.rfind\<close> of one character: the last index, or $-1$.\<close>

fun rfind :: "char \<Rightarrow> string \<Rightarrow> int" where
  "rfind c [] = - 1"
| "rfind c (x # xs) =
     (let r = rfind c xs in if 0 \<le> r then r + 1 else if x = c then 0 else - 1)"

definition path_suffix :: "path \<Rightarrow> string" where
  "path_suffix p =
     (let name = path_name p; i = rfind CHR ''.'' name
      in if 0 < i \<and> i < int (length name) - 1 then drop (nat i) name else [])"

definition path_stem :: "path \<Rightarrow> string" where
  "path_stem p =
     (let name = path_name p; i = rfind CHR ''.'' name
      in if 0 < i \<and> i < int (length name) - 1 then take (nat i) name else name)"

subsection \<open>build\_ffmpeg\_cmd (lines 190--219)\<close>

text \<open>
  The argument list, field by field: \<open>cmd_af\<close> is the filter chain after
  \<^verbatim>\<open>-af\<close> (empty when the option is left out), \<open>cmd_encoder\<close> and \<open>cmd_bitrate\<close>
  follow \<^verbatim>\<open>-c:a\<close> and \<^verbatim>\<open>-b:a\<close>, \<open>cmd_extra\<close> holds the remaining codec flags.
\<close>

record ffmpeg_cmd =
  cmd_input :: path
  cmd_af :: "stage list"
  cmd_ac :: int
  cmd_ar :: int
  cmd_encoder :: string
  cmd_bitrate :: int
  cmd_extra :: "string list"
  cmd_output :: path

definition build_ffmpeg_cmd ::
  "path \<Rightarrow> path \<Rightarrow> string \<Rightarrow> int \<Rightarrow> int \<Rightarrow> int \<Rightarrow> stage list \<Rightarrow> error + ffmpeg_cmd" where
  "build_ffmpeg_cmd inp out codec bitrate_bps samplerate channels filterchain =
     (let cmd = \<lparr>cmd_input = inp, cmd_af = filterchain, cmd_ac = channels, cmd_ar = samplerate,
                 cmd_encoder = [], cmd_bitrate = bitrate_bps, cmd_extra = [], cmd_output = out\<rparr>
      in if codec = ''opus''
         then Inr (cmd\<lparr>cmd_encoder := ''libopus'',
                        cmd_extra := [''-vbr'', ''on'', ''-compression_level'', ''10'']\<rparr>)
         else if codec = ''aac'' then Inr (cmd\<lparr>cmd_encoder := ''aac''\<rparr>)
         else if codec = ''mp3'' then Inr (cmd\<lparr>cmd_encoder := ''libmp3lame''\<rparr>)
         else Inl (ValueError ''Unsupported codec: ''))"

subsection \<open>compress\_audio (lines 222--302)\<close>

text \<open>
  What the outside world answers while one file is processed:
  \<^verbatim>\<open>os.path.exists(input_path)\<close>, the prober's output, \<^verbatim>\<open>os.path.getsize\<close> of
  the input, and for the encoder command that is run its exit code, whether the
  output file exists afterwards, and that file's size. Printing is taken to
  succeed here; the section on printing and directory creation has the calls
  as steps that may raise. Removing a partial output file changes no value
  below.
\<close>

record file_env =
  fe_exists :: bool
  fe_probe :: probe_output
  fe_original_size :: int
  fe_ffmpeg :: "ffmpeg_cmd \<Rightarrow> int \<times> bool \<times> int"

text \<open>
  The outcome of one call: \<open>jr_ok\<close> is the returned boolean and \<open>jr_args\<close> the
  shared options object as the call leaves it. The other fields record what
  the call did: the bitrate once line 244 is reached, the encoder command once
  it is run, and the exception that the handler at line 294 caught.
\<close>

record job_result =
  jr_input :: path
  jr_output :: path
  jr_ok :: bool
  jr_args :: args
  jr_bitrate :: "int option"
  jr_cmd :: "ffmpeg_cmd option"
  jr_error :: "error option"

text \<open>Lines 233--243: the bitrate, by target size, explicit string or preset.\<close>

definition resolve_bitrate :: "args \<Rightarrow> preset_config \<Rightarrow> pyfloat \<Rightarrow> error + int" where
  "resolve_bitrate args preset_config duration =
     (case truthy_int (arg_ts args) of
        Some ts \<Rightarrow> compute_bitrate_for_target_size ts duration
      | None \<Rightarrow>
          (case truthy_str (arg_b args) of
             Some b \<Rightarrow>
               (case match_bitrate b of
                  None \<Rightarrow> Inl (ValueError ''Invalid bitrate: '')
                | Some ds \<Rightarrow> Inr (py_int ds * 1000))
           | None \<Rightarrow> Inr (pc_bitrate_bps preset_config)))"

text \<open>Lines 257--263: the size estimate and the line that prints it.\<close>

definition print_estimate :: "int \<Rightarrow> pyfloat \<Rightarrow> int \<Rightarrow> error + unit" where
  "print_estimate bitrate_bps duration original_size =
     bind_err (float_of_int bitrate_bps) (\<lambda>bf.
     bind_err (fdiv (fmul bf duration) (Finite 8)) (\<lambda>q.
     bind_err (int_of_float q) (\<lambda>est_size.
     bind_err (if est_size < original_size
               then int_truediv (original_size - est_size) original_size
               else Inr (Finite 0)) (\<lambda>reduction.
     bind_err (bytes_to_human original_size) (\<lambda>_.
     bind_err (bytes_to_human est_size) (\<lambda>_.
     bind_err (int_truediv bitrate_bps 1000) (\<lambda>k.
     bind_err (int_of_float k) (\<lambda>_. Inr ()))))))))"

text \<open>Lines 286--289: the report of the actual size.\<close>

definition print_actual :: "int \<Rightarrow> int \<Rightarrow> error + unit" where
  "print_actual original_size actual_size =
     bind_err (int_truediv (original_size - actual_size) original_size) (\<lambda>_.
     bytes_to_human actual_size)"

text \<open>Lines 276--292: the encoder is run and its outcome classified.\<close>

definition run_encoder :: "job_result \<Rightarrow> file_env \<Rightarrow> ffmpeg_cmd \<Rightarrow> job_result" where
  "run_encoder r env cmd =
     (case fe_ffmpeg env cmd of
        (code, out_exists, actual_size) \<Rightarrow>
          if code \<noteq> 0 then r
          else if out_exists
          then (case print_actual (fe_original_size env) actual_size of
                  Inl e \<Rightarrow> r\<lparr>jr_error := Some e\<rparr>
                | Inr _ \<Rightarrow> r\<lparr>jr_ok := True\<rparr>)
          else r)"

text \<open>Lines 249--274: the encoding parameters, the estimate and the command.\<close>

definition encode_job ::
  "job_result \<Rightarrow> preset_config \<Rightarrow> args \<Rightarrow> int \<Rightarrow> pyfloat \<Rightarrow> file_env \<Rightarrow> job_result" where
  "encode_job r preset_config args bitrate_bps duration env =
     (let samplerate = int_or (arg_sr args) (pc_samplerate preset_config);
          channels = int_or (arg_ch args) (pc_channels preset_config);
          codec = str_or (arg_codec args) (pc_codec preset_config);
          filterchain = build_filterchain args preset_config
      in case print_estimate bitrate_bps duration (fe_original_size env) of
           Inl e \<Rightarrow> r\<lparr>jr_error := Some e\<rparr>
         | Inr _ \<Rightarrow>
             (case build_ffmpeg_cmd (jr_input r) (jr_output r) codec bitrate_bps
                     samplerate channels filterchain of
                Inl e \<Rightarrow> r\<lparr>jr_error := Some e\<rparr>
              | Inr cmd \<Rightarrow> run_encoder (r\<lparr>jr_cmd := Some cmd\<rparr>) env cmd))"

text \<open>Lines 245--247: the low-pass adjustment, written into the shared options.\<close>

definition adjust_lowpass :: "args \<Rightarrow> int \<Rightarrow> args" where
  "adjust_lowpass args bitrate_bps =
     (if arg_preset args = ''voice'' \<and> bitrate_bps \<le> 24000 \<and> arg_lp args = None
      then args\<lparr>arg_lp := Some 8000\<rparr> else args)"

definition compress_audio ::
  "path \<Rightarrow> path \<Rightarrow> preset_config \<Rightarrow> args \<Rightarrow> file_env \<Rightarrow> job_result" where
  "compress_audio input_path output_path preset_config args env =
     (let r0 = \<lparr>jr_input = input_path, jr_output = output_path, jr_ok = False, jr_args = args,
                jr_bitrate = None, jr_cmd = None, jr_error = None\<rparr>
      in if \<not> fe_exists env then r0
         else case ffprobe_duration (fe_probe env) of
           Inl e \<Rightarrow> r0\<lparr>jr_error := Some e\<rparr>
         | Inr duration \<Rightarrow>
            (case resolve_bitrate args preset_config duration of
               Inl e \<Rightarrow> r0\<lparr>jr_error := Some e\<rparr>
             | Inr bitrate_bps \<Rightarrow>
                 encode_job
                   (r0\<lparr>jr_args := adjust_lowpass args bitrate_bps,
                       jr_bitrate := Some bitrate_bps\<rparr>)
                   preset_config (adjust_lowpass args bitrate_bps) bitrate_bps duration env))"

section \<open>main (lines 322--480)\<close>

text \<open>
  The run's surroundings: whether \<^verbatim>\<open>ffmpeg\<close> and \<^verbatim>\<open>ffprobe\<close> are installed, the
  sorted files that \<^verbatim>\<open>collect_inputs\<close> found, each with what the world answers
  while it is processed, and whether \<^verbatim>\<open>args.output\<close> names a directory.
\<close>

record world =
  w_ffmpeg_found :: bool
  w_files :: "(path \<times> file_env) list"
  w_output_is_dir :: bool

datatype run_result =
    ListedPresets
  | Exited int
  | Uncaught error
  | Completed nat nat "job_result list"

text \<open>
  Lines 449--465: the output path of one input file, by output mode. The
  creation of the output directory (line 456) is a step of the loop in the
  section on printing and directory creation.
\<close>

definition derive_output_path :: "args \<Rightarrow> preset_config \<Rightarrow> bool \<Rightarrow> bool \<Rightarrow> path \<Rightarrow> path" where
  "derive_output_path args preset_config single_file output_is_dir audio_file =
     (let ext = normalize_ext_for_codec (str_or (arg_codec args) (pc_codec preset_config))
      in case truthy_str (arg_output args) of
           Some output \<Rightarrow>
             if single_file \<and> \<not> output_is_dir then path_of_string output
             else if output_is_dir
             then joinpath (path_of_string output) (path_stem audio_file @ ext)
             else joinpath (path_parent audio_file)
                    (path_stem audio_file @ arg_suffix args @ ext)
         | None \<Rightarrow>
             joinpath (path_parent audio_file)
               (path_stem audio_file @ arg_suffix args @ ext))"

text \<open>Lines 467--469: the safety check against overwriting the input.\<close>

definition determine_output_path :: "args \<Rightarrow> preset_config \<Rightarrow> bool \<Rightarrow> bool \<Rightarrow> path \<Rightarrow> path" where
  "determine_output_path args preset_config single_file output_is_dir audio_file =
     (let output_path = derive_output_path args preset_config single_file output_is_dir audio_file
      in if output_path = audio_file
         then joinpath (path_parent audio_file)
                (path_stem audio_file @ ''-compressed'' @ path_suffix audio_file)
         else output_path)"

text \<open>
  Lines 445--476: the loop over the files, with the two counters. The list of
  job results grows in processing order.
\<close>

fun process_files ::
  "preset_config \<Rightarrow> bool \<Rightarrow> bool \<Rightarrow> args \<Rightarrow> (path \<times> file_env) list
     \<Rightarrow> nat \<Rightarrow> nat \<Rightarrow> job_result list \<Rightarrow> run_result" where
  "process_files pc single_file output_is_dir args [] success_count failed_count jobs =
     Completed success_count failed_count jobs"
| "process_files pc single_file output_is_dir args ((audio_file, env) # rest)
     success_count failed_count jobs =
     (let output_path = determine_output_path args pc single_file output_is_dir audio_file;
          r = compress_audio audio_file output_path pc args env
      in if jr_ok r
         then process_files pc single_file output_is_dir (jr_args r) rest
                (success_count + 1) failed_count (jobs @ [r])
         else process_files pc single_file output_is_dir (jr_args r) rest
                success_count (failed_count + 1) (jobs @ [r]))"

definition main :: "args \<Rightarrow> world \<Rightarrow> run_result" where
  "main args w =
     (if arg_list_presets args then ListedPresets
      else if \<not> w_ffmpeg_found w then Exited 1
      else case PRESETS (arg_preset args) of
        None \<Rightarrow> Uncaught (KeyError (arg_preset args))
      | Some preset_config \<Rightarrow>
          if w_files w = [] then Exited 1
          else case (case truthy_str (arg_target_size args) of
                       Some s \<Rightarrow> bind_err (human_to_bytes s) (\<lambda>n. Inr (Some n))
                     | None \<Rightarrow> Inr None) of
            Inl e \<Rightarrow> Exited 1
          | Inr ts \<Rightarrow>
             (let args1 = args\<lparr>arg_ts := ts, arg_b := arg_bitrate args,
                               arg_sr := arg_samplerate args, arg_ch := arg_channels args\<rparr>;
                  single_file = (length (w_files w) = 1);
                  output_is_dir = (truthy_str (arg_output args) \<noteq> None
                                     \<and> (w_output_is_dir w \<or> \<not> single_file))
              in process_files preset_config single_file output_is_dir args1 (w_files w) 0 0 []))"

section \<open>Printing and directory creation\<close>

text \<open>
  The definitions above take every \<^verbatim>\<open>print\<close> and the \<^verbatim>\<open>mkdir\<close> of line 456
  to succeed. The definitions of this section follow the same lines of the
  source with those calls as steps that may raise. What each call does is the
  world's answer: per file, whether \<^verbatim>\<open>output_dir.mkdir\<close> raises and which of
  the file's prints raise; per run, which of the prints of \<^verbatim>\<open>main\<close> raise.
  Consecutive prints with nothing between them share one answer, the first
  exception raised among them. The remaining library calls of
  \<^verbatim>\<open>compress_audio\<close> (\<^verbatim>\<open>getsize\<close>, \<^verbatim>\<open>remove\<close>, starting the encoder) all sit
  inside the \<^verbatim>\<open>try\<close>, and the \<^verbatim>\<open>remove\<close> of the handler has a \<^verbatim>\<open>try\<close> of its
  own; they are answered by \<open>file_env\<close> as before.
\<close>

datatype file_site =
    NotFoundText
  | EstimateHeader
  | EstimateLine
  | EncoderErrorText
  | ActualText
  | HandlerText
  | BlankLine


record file_io =
  fio_mkdir :: "error option"
  fio_print :: "file_site \<Rightarrow> error option"


definition do_print :: "('s \<Rightarrow> error option) \<Rightarrow> 's \<Rightarrow> error + unit" where
  "do_print pr site = (case pr site of Some e \<Rightarrow> Inl e | None \<Rightarrow> Inr ())"

text \<open>Lines 257--263, with the prints of lines 261 and 262.\<close>

definition estimate_io ::
  "int \<Rightarrow> pyfloat \<Rightarrow> int \<Rightarrow> (file_site \<Rightarrow> error option) \<Rightarrow> error + unit" where
  "estimate_io bitrate_bps duration original_size pr =
     bind_err (float_of_int bitrate_bps) (\<lambda>bf.
     bind_err (fdiv (fmul bf duration) (Finite 8)) (\<lambda>q.
     bind_err (int_of_float q) (\<lambda>est_size.
     bind_err (if est_size < original_size
               then int_truediv (original_size - est_size) original_size
               else Inr (Finite 0)) (\<lambda>reduction.
     bind_err (do_print pr EstimateHeader) (\<lambda>_.
     bind_err (bytes_to_human original_size) (\<lambda>_.
     bind_err (bytes_to_human est_size) (\<lambda>_.
     bind_err (int_truediv bitrate_bps 1000) (\<lambda>k.
     bind_err (int_of_float k) (\<lambda>_. do_print pr EstimateLine)))))))))"

text \<open>
  Lines 276--292 inside the \<^verbatim>\<open>try\<close>: an exception of the print of line 279 or
  289 is recorded in \<open>jr_error\<close>, for the handler.
\<close>

definition run_encoder_io ::
  "job_result \<Rightarrow> file_env \<Rightarrow> ffmpeg_cmd \<Rightarrow> (file_site \<Rightarrow> error option) \<Rightarrow> job_result" where
  "run_encoder_io r env cmd pr =
     (case fe_ffmpeg env cmd of
        (code, out_exists, actual_size) \<Rightarrow>
          if code \<noteq> 0
          then (case pr EncoderErrorText of Some e \<Rightarrow> r\<lparr>jr_error := Some e\<rparr> | None \<Rightarrow> r)
          else if out_exists
          then (case bind_err (print_actual (fe_original_size env) actual_size)
                       (\<lambda>_. do_print pr ActualText) of
                  Inl e \<Rightarrow> r\<lparr>jr_error := Some e\<rparr>
                | Inr _ \<Rightarrow> r\<lparr>jr_ok := True\<rparr>)
          else r)"

definition encode_job_io ::
  "job_result \<Rightarrow> preset_config \<Rightarrow> args \<Rightarrow> int \<Rightarrow> pyfloat \<Rightarrow> file_env
     \<Rightarrow> (file_site \<Rightarrow> error option) \<Rightarrow> job_result" where
  "encode_job_io r preset_config args bitrate_bps duration env pr =
     (let samplerate = int_or (arg_sr args) (pc_samplerate preset_config);
          channels = int_or (arg_ch args) (pc_channels preset_config);
          codec = str_or (arg_codec args) (pc_codec preset_config);
          filterchain = build_filterchain args preset_config
      in case estimate_io bitrate_bps duration (fe_original_size env) pr of
           Inl e \<Rightarrow> r\<lparr>jr_error := Some e\<rparr>
         | Inr _ \<Rightarrow>
             (case build_ffmpeg_cmd (jr_input r) (jr_output r) codec bitrate_bps
                     samplerate channels filterchain of
                Inl e \<Rightarrow> r\<lparr>jr_error := Some e\<rparr>
              | Inr cmd \<Rightarrow> run_encoder_io (r\<lparr>jr_cmd := Some cmd\<rparr>) env cmd pr))"

text \<open>
  Lines 228--292, the body of the \<^verbatim>\<open>try\<close>: \<open>jr_error\<close> holds the exception
  that reaches the handler.
\<close>

definition try_body_io ::
  "path \<Rightarrow> path \<Rightarrow> preset_config \<Rightarrow> args \<Rightarrow> file_env \<Rightarrow> (file_site \<Rightarrow> error option)
     \<Rightarrow> job_result" where
  "try_body_io input_path output_path preset_config args env pr =
     (let r0 = \<lparr>jr_input = input_path, jr_output = output_path, jr_ok = False, jr_args = args,
                jr_bitrate = None, jr_cmd = None, jr_error = None\<rparr>
      in case ffprobe_duration (fe_probe env) of
           Inl e \<Rightarrow> r0\<lparr>jr_error := Some e\<rparr>
         | Inr duration \<Rightarrow>
            (case resolve_bitrate args preset_config duration of
               Inl e \<Rightarrow> r0\<lparr>jr_error := Some e\<rparr>
             | Inr bitrate_bps \<Rightarrow>
                 encode_job_io
                   (r0\<lparr>jr_args := adjust_lowpass args bitrate_bps,
                       jr_bitrate := Some bitrate_bps\<rparr>)
                   preset_config (adjust_lowpass args bitrate_bps) bitrate_bps duration env pr))"

text \<open>
  Lines 222--302: \<open>Inl e\<close> when \<open>e\<close> leaves the function, which the print of
  line 225 and the handler's prints of lines 295--296 can cause.
\<close>

definition compress_audio_io ::
  "path \<Rightarrow> path \<Rightarrow> preset_config \<Rightarrow> args \<Rightarrow> file_env \<Rightarrow> (file_site \<Rightarrow> error option)
     \<Rightarrow> error + job_result" where
  "compress_audio_io input_path output_path preset_config args env pr =
     (if \<not> fe_exists env
      then bind_err (do_print pr NotFoundText) (\<lambda>_.
             Inr \<lparr>jr_input = input_path, jr_output = output_path, jr_ok = False,
                  jr_args = args, jr_bitrate = None, jr_cmd = None, jr_error = None\<rparr>)
      else let r = try_body_io input_path output_path preset_config args env pr
           in case jr_error r of
                None \<Rightarrow> Inr r
              | Some e \<Rightarrow> bind_err (do_print pr HandlerText) (\<lambda>_. Inr r))"




section \<open>Observations\<close>

text \<open>The jobs of a completed run, and none for a run that ended early.\<close>

fun jobs_of :: "run_result \<Rightarrow> job_result list" where
  "jobs_of (Completed s f js) = js"
| "jobs_of _ = []"

text \<open>The two counters of the final summary line.\<close>

fun tally :: "run_result \<Rightarrow> (nat \<times> nat) option" where
  "tally (Completed s f js) = Some (s, f)"
| "tally _ = None"

text \<open>
  The job results of the loop of lines 448--476 one after the other, each job
  starting from the options object as the one before left it.
\<close>

fun run_jobs ::
  "preset_config \<Rightarrow> bool \<Rightarrow> bool \<Rightarrow> args \<Rightarrow> (path \<times> file_env) list \<Rightarrow> job_result list" where
  "run_jobs pc single_file output_is_dir args [] = []"
| "run_jobs pc single_file output_is_dir args ((audio_file, env) # rest) =
     compress_audio audio_file
       (determine_output_path args pc single_file output_is_dir audio_file) pc args env
     # run_jobs pc single_file output_is_dir
         (jr_args (compress_audio audio_file
            (determine_output_path args pc single_file output_is_dir audio_file) pc args env))
         rest"

text \<open>
  The duration entry the prober's output offers, in the words of the
  specification: the container-level duration when present, else the duration
  of the first audio stream that reports one.
\<close>

definition duration_source :: "probe_info \<Rightarrow> float_field" where
  "duration_source info =
     (case info_format info of
        Some (Some v) \<Rightarrow> Some v
      | _ \<Rightarrow>
          (case find (\<lambda>s. s_codec_type s = Some ''audio'' \<and> s_duration s \<noteq> None)
                  (info_streams info) of
             Some s \<Rightarrow> s_duration s
           | None \<Rightarrow> None))"

text \<open>The cut-offs of the low-pass stages of a chain, and the place of a stage.\<close>

fun lowpass_cutoffs :: "stage list \<Rightarrow> int list" where
  "lowpass_cutoffs [] = []"
| "lowpass_cutoffs (Lowpass l # xs) = l # lowpass_cutoffs xs"
| "lowpass_cutoffs (x # xs) = lowpass_cutoffs xs"

fun stage_rank :: "stage \<Rightarrow> nat" where
  "stage_rank (Silenceremove d t) = 0"
| "stage_rank (Highpass h) = 1"
| "stage_rank (Lowpass l) = 2"
| "stage_rank (Loudnorm l) = 3"

text \<open>
  A job whose options object holds the forced low-pass and whose encoder
  command, if any, filters at 8000 Hz.
\<close>

definition lp_forced :: "job_result \<Rightarrow> bool" where
  "lp_forced j \<longleftrightarrow>
     arg_lp (jr_args j) = Some 8000
     \<and> (\<forall>c. jr_cmd j = Some c \<longrightarrow> lowpass_cutoffs (cmd_af c) = [8000])"

text \<open>What parsing guarantees of the components of a path.\<close>

definition path_ok :: "path \<Rightarrow> bool" where
  "path_ok p = list_all (\<lambda>w. w \<noteq> [] \<and> w \<noteq> ''.'' \<and> CHR ''/'' \<notin> set w) (path_parts p)"

section \<open>Example inputs\<close>

text \<open>The options as \<^verbatim>\<open>argparse\<close> leaves them when only paths are given.\<close>

definition default_args :: args where
  "default_args =
     \<lparr>arg_preset = ''voice'', arg_output = None, arg_suffix = [], arg_codec = None,
      arg_bitrate = None, arg_target_size = None, arg_samplerate = None, arg_channels = None,
      arg_lufs = None, arg_st = False, arg_sth = None, arg_sd = None, arg_hp = None,
      arg_lp = None, arg_list_presets = False, arg_ts = None, arg_b = None, arg_sr = None,
      arg_ch = None\<rparr>"

text \<open>A prober that reports a container-level duration of \<open>d\<close> seconds.\<close>

definition probe_ok :: "rat \<Rightarrow> probe_output" where
  "probe_ok d =
     \<lparr>po_code = 0,
      po_info = Some \<lparr>info_format = Some (Some (Inr (Finite d))), info_streams = []\<rparr>\<rparr>"

text \<open>A prober that exits with status 1.\<close>

definition probe_failed :: probe_output where
  "probe_failed = \<lparr>po_code = 1, po_info = None\<rparr>"

text \<open>
  A prober that reports no container-level duration but four streams; the
  first audio stream with a duration is the third.
\<close>

definition probe_streams :: probe_output where
  "probe_streams =
     \<lparr>po_code = 0,
      po_info = Some
        \<lparr>info_format = Some None,
         info_streams =
           [\<lparr>s_codec_type = Some ''video'', s_duration = Some (Inr (Finite 99))\<rparr>,
            \<lparr>s_codec_type = Some ''audio'', s_duration = None\<rparr>,
            \<lparr>s_codec_type = Some ''audio'', s_duration = Some (Inr (Finite 12))\<rparr>,
            \<lparr>s_codec_type = Some ''audio'', s_duration = Some (Inr (Finite 7))\<rparr>]\<rparr>\<rparr>"

text \<open>An encoder that succeeds and leaves a 4096-byte file.\<close>

definition encoder_ok :: "ffmpeg_cmd \<Rightarrow> int \<times> bool \<times> int" where
  "encoder_ok cmd = (0, True, 4096)"

definition file_ok :: "rat \<Rightarrow> file_env" where
  "file_ok d =
     \<lparr>fe_exists = True, fe_probe = probe_ok d, fe_original_size = 10000000,
      fe_ffmpeg = encoder_ok\<rparr>"

definition file_unprobed :: file_env where
  "file_unprobed =
     \<lparr>fe_exists = True, fe_probe = probe_failed, fe_original_size = 10000000,
      fe_ffmpeg = encoder_ok\<rparr>"

definition track_wav :: path where
  "track_wav = Path [] [''track.wav'']"

definition track_opus :: path where
  "track_opus = Path [] [''track.opus'']"

text \<open>Runs over one, two and three files; the middle one of three cannot be probed.\<close>

definition one_file :: "rat \<Rightarrow> world" where
  "one_file d =
     \<lparr>w_ffmpeg_found = True, w_files = [(track_wav, file_ok d)], w_output_is_dir = False\<rparr>"

definition two_files :: "rat \<Rightarrow> rat \<Rightarrow> world" where
  "two_files d1 d2 =
     \<lparr>w_ffmpeg_found = True,
      w_files = [(Path [] [''a.wav''], file_ok d1), (Path [] [''b.wav''], file_ok d2)],
      w_output_is_dir = False\<rparr>"

definition three_files :: world where
  "three_files =
     \<lparr>w_ffmpeg_found = True,
      w_files = [(Path [] [''a.wav''], file_ok 300), (Path [] [''b.wav''], file_unprobed),
                 (Path [] [''c.wav''], file_ok 300)],
      w_output_is_dir = False\<rparr>"

text \<open>
  Worlds for printing and directory creation: one where every call succeeds;
  a file whose name the output stream cannot encode, so that the three prints
  that show the path raise; a file for which \<^verbatim>\<open>mkdir\<close> finds a regular file in
  the way.
\<close>

definition quiet_file :: file_io where
  "quiet_file = \<lparr>fio_mkdir = None, fio_print = (\<lambda>site. None)\<rparr>"






text \<open>\<^verbatim>\<open>str(n)\<close> for a natural number: its decimal digits.\<close>

definition digit_char :: "nat \<Rightarrow> char" where
  "digit_char k = ''0123456789'' ! k"

fun digits_of :: "nat \<Rightarrow> string" where
  "digits_of n =
     (if n < 10 then [digit_char n] else digits_of (n div 10) @ [digit_char (n mod 10)])"

declare digits_of.simps [simp del]

section \<open>Evaluation and structure lemmas\<close>

lemma floor_numeral_div [simp]:
  "\<lfloor>(numeral a :: rat) / numeral b\<rfloor> = numeral a div numeral b"
  using floor_divide_of_int_eq [of "numeral a" "numeral b", where ?'a = rat] by simp

lemma ceiling_numeral_div [simp]:
  "\<lceil>(numeral a :: rat) / numeral b\<rceil> = - ((- numeral a) div numeral b)"
  using floor_divide_of_int_eq [of "- numeral a" "numeral b", where ?'a = rat]
  by (simp add: ceiling_def)

lemma ilog2_numeral [simp]:
  "ilog2 (numeral k) = (if numeral k \<le> (1::int) then 0 else 1 + ilog2 (numeral k div 2))"
  by (rule ilog2.simps)

lemma ilog2_small [simp]: "ilog2 0 = 0" "ilog2 1 = 0"
  by (simp_all add: ilog2.simps)

lemmas fl_eval = fl_def floor_log2_def ceil_log2_def pow2_def round_half_even_def Let_def

lemmas char_eval = is_space_def is_digit_def is_numchar_def digit_val_def py_int_def

lemma bind_err_simps [simp]:
  "bind_err (Inl e) f = Inl e"
  "bind_err (Inr x) f = f x"
  by (simp_all add: bind_err_def)

lemma run_encoder_fields [simp]:
  "jr_cmd (run_encoder r env cmd) = jr_cmd r"
  "jr_args (run_encoder r env cmd) = jr_args r"
  "jr_bitrate (run_encoder r env cmd) = jr_bitrate r"
  "jr_input (run_encoder r env cmd) = jr_input r"
  "jr_output (run_encoder r env cmd) = jr_output r"
  by (simp_all add: run_encoder_def split: prod.splits sum.splits)

lemma encode_job_fields [simp]:
  "jr_args (encode_job r pc args b d env) = jr_args r"
  "jr_bitrate (encode_job r pc args b d env) = jr_bitrate r"
  "jr_input (encode_job r pc args b d env) = jr_input r"
  "jr_output (encode_job r pc args b d env) = jr_output r"
  by (simp_all add: encode_job_def Let_def split: sum.splits)

lemma build_ffmpeg_cmd_fields:
  assumes "build_ffmpeg_cmd inp out codec b sr ch fc = Inr c"
  shows "cmd_input c = inp" "cmd_output c = out" "cmd_bitrate c = b" "cmd_af c = fc"
    "cmd_ar c = sr" "cmd_ac c = ch"
  using assms by (auto simp: build_ffmpeg_cmd_def Let_def split: if_splits)

lemma encode_job_cmd:
  assumes "jr_cmd (encode_job r pc args b d env) = Some c" and "jr_cmd r = None"
  shows "cmd_input c = jr_input r \<and> cmd_output c = jr_output r \<and> cmd_bitrate c = b
           \<and> cmd_af c = build_filterchain args pc"
proof (cases "print_estimate b d (fe_original_size env)")
  case (Inl e)
  with assms show ?thesis by (simp add: encode_job_def Let_def)
next
  case pe: (Inr u)
  show ?thesis
  proof (cases "build_ffmpeg_cmd (jr_input r) (jr_output r) (str_or (arg_codec args) (pc_codec pc)) b
                  (int_or (arg_sr args) (pc_samplerate pc)) (int_or (arg_ch args) (pc_channels pc))
                  (build_filterchain args pc)")
    case (Inl e)
    with assms pe show ?thesis by (simp add: encode_job_def Let_def)
  next
    case (Inr cmd)
    with assms pe have "c = cmd" by (simp add: encode_job_def Let_def)
    with build_ffmpeg_cmd_fields [OF Inr] show ?thesis by simp
  qed
qed

lemma compress_audio_fields [simp]:
  "jr_input (compress_audio inp out pc args env) = inp"
  "jr_output (compress_audio inp out pc args env) = out"
  by (simp_all add: compress_audio_def Let_def split: sum.splits)

text \<open>What an encoder command tells about the job that issued it.\<close>

lemma compress_audio_cmd:
  assumes "jr_cmd (compress_audio inp out pc args env) = Some c"
  shows "\<exists>d b. ffprobe_duration (fe_probe env) = Inr d
           \<and> resolve_bitrate args pc d = Inr b
           \<and> jr_bitrate (compress_audio inp out pc args env) = Some b
           \<and> jr_args (compress_audio inp out pc args env) = adjust_lowpass args b
           \<and> cmd_bitrate c = b \<and> cmd_input c = inp \<and> cmd_output c = out
           \<and> cmd_af c = build_filterchain (adjust_lowpass args b) pc"
proof (cases "ffprobe_duration (fe_probe env)")
  case (Inl e)
  with assms show ?thesis by (simp add: compress_audio_def Let_def split: if_splits)
next
  case d: (Inr d)
  show ?thesis
  proof (cases "resolve_bitrate args pc d")
    case (Inl e)
    with assms d show ?thesis by (simp add: compress_audio_def Let_def split: if_splits)
  next
    case b: (Inr b)
    from assms d b have ex: "fe_exists env"
      by (simp add: compress_audio_def Let_def split: if_splits)
    with assms d b encode_job_cmd show ?thesis
      by (simp add: compress_audio_def Let_def)
  qed
qed

lemmas example_defs =
  default_args_def probe_ok_def probe_failed_def probe_streams_def encoder_ok_def file_ok_def
  file_unprobed_def track_wav_def track_opus_def voice_preset_def music_preset_def
  podcast_preset_def one_file_def two_files_def three_files_def

lemmas job_struct =
  compress_audio_def encode_job_def run_encoder_def adjust_lowpass_def resolve_bitrate_def
  ffprobe_duration_def build_ffmpeg_cmd_def build_filterchain_def int_or_def str_or_def
  match_bitrate_def Let_def

lemmas num_eval =
  print_estimate_def print_actual_def bytes_to_human_def int_truediv_def float_of_int_def
  compute_bitrate_for_target_size_def fl_eval

text \<open>The numeric steps of the example jobs, evaluated once.\<close>

lemma target_2500000_at_300: "compute_bitrate_for_target_size 2500000 (Finite 300) = Inr 64666"
  by (simp add: num_eval)

lemma target_2500000_at_3000: "compute_bitrate_for_target_size 2500000 (Finite 3000) = Inr 6466"
  by (simp add: num_eval)

lemma estimate_64666: "print_estimate 64666 (Finite 300) 10000000 = Inr ()"
  by (simp add: num_eval)

lemma estimate_6466: "print_estimate 6466 (Finite 3000) 10000000 = Inr ()"
  by (simp add: num_eval)

lemma estimate_32000: "print_estimate 32000 (Finite 300) 10000000 = Inr ()"
  by (simp add: num_eval)

lemma estimate_1000: "print_estimate 1000 (Finite 300) 10000000 = Inr ()"
  by (simp add: num_eval)

lemma actual_4096: "print_actual 10000000 4096 = Inr ()"
  by (simp add: num_eval)

lemmas example_eval =
  target_2500000_at_300 target_2500000_at_3000 estimate_64666 estimate_6466 estimate_32000
  estimate_1000 actual_4096

subsection \<open>Decimal digits\<close>

lemma digit_char_props:
  assumes "k < 10"
  shows "is_digit (digit_char k)" "digit_val (digit_char k) = int k" "\<not> is_space (digit_char k)"
proof -
  from assms have "k \<in> {0, 1, 2, 3, 4, 5, 6, 7, 8, 9}" by auto
  then show "is_digit (digit_char k)" "digit_val (digit_char k) = int k" "\<not> is_space (digit_char k)"
    by (auto simp: digit_char_def is_digit_def digit_val_def is_space_def)
qed

lemma digits_of_nonempty: "digits_of n \<noteq> []"
  by (subst digits_of.simps) simp

lemma digits_of_all_digits: "\<forall>c \<in> set (digits_of n). is_digit c"
proof (induction n rule: digits_of.induct)
  case (1 n)
  show ?case
  proof (cases "n < 10")
    case True
    then show ?thesis by (subst digits_of.simps) (simp add: digit_char_props)
  next
    case False
    with 1 show ?thesis by (subst digits_of.simps) (simp add: digit_char_props)
  qed
qed

lemma py_int_digits_of: "py_int (digits_of n) = int n"
proof (induction n rule: digits_of.induct)
  case (1 n)
  show ?case
  proof (cases "n < 10")
    case True
    then show ?thesis by (subst digits_of.simps) (simp add: py_int_def digit_char_props)
  next
    case False
    with 1 have ih: "py_int (digits_of (n div 10)) = int (n div 10)" by simp
    have ar: "10 * int (n div 10) + int (n mod 10) = int n" by presburger
    from False ih ar show ?thesis
      by (subst digits_of.simps) (simp add: py_int_def digit_char_props)
  qed
qed

lemma digit_not_space: "is_digit c \<Longrightarrow> \<not> is_space c"
  by (auto simp: is_digit_def is_space_def)

lemma match_bitrate_digits:
  assumes "ds \<noteq> []" and "\<forall>c \<in> set ds. is_digit c"
  shows "match_bitrate ds = Some ds" "match_bitrate (ds @ ''k'') = Some ds"
proof -
  from assms obtain c cs where ds: "ds = c # cs" by (cases ds) auto
  with assms have c: "\<not> is_space c" by (simp add: digit_not_space)
  have k: "\<not> is_digit CHR ''k''" "\<not> is_space CHR ''k''" by (simp_all add: is_digit_def is_space_def)
  from c ds have dw: "dropWhile is_space ds = ds" "dropWhile is_space (ds @ ''k'') = ds @ ''k''" by simp_all
  from assms have tw: "takeWhile is_digit ds = ds" "dropWhile is_digit ds = []"
    by (simp_all)
  from assms k have tw2: "takeWhile is_digit (ds @ ''k'') = ds" "dropWhile is_digit (ds @ ''k'') = ''k''"
    by (simp_all add: takeWhile_append2 dropWhile_append2)
  show "match_bitrate ds = Some ds"
    using assms(1) by (simp add: match_bitrate_def Let_def dw tw)
  show "match_bitrate (ds @ ''k'') = Some ds"
    using assms(1) k by (simp add: match_bitrate_def Let_def dw tw2)
qed

lemma digits_of_nonempty_str: "truthy_str (Some (digits_of n)) = Some (digits_of n)"
  "truthy_str (Some (digits_of n @ ''k'')) = Some (digits_of n @ ''k'')"
  by (simp_all add: digits_of_nonempty)

subsection \<open>Bounds\<close>

lemma compute_bitrate_bounds:
  "compute_bitrate_for_target_size t d = Inr b \<Longrightarrow> 6000 \<le> b \<and> b \<le> 512000"
  by (auto simp: compute_bitrate_for_target_size_def bind_err_def Let_def
           split: if_splits sum.splits)

lemma preset_bitrate_bounds:
  "PRESETS name = Some pc \<Longrightarrow> 6000 \<le> pc_bitrate_bps pc \<and> pc_bitrate_bps pc \<le> 512000"
  by (auto simp: PRESETS_def voice_preset_def music_preset_def podcast_preset_def
           split: if_splits)


section \<open>The claims\<close>

subsection \<open>C10: an explicit bitrate is always read in thousands\<close>

text \<open>
  C10. The explicit bitrate string is digits optionally followed by \<^verbatim>\<open>k\<close>, and
  the digit value is multiplied by 1000 with or without the suffix: with no
  target size in effect, both \<^verbatim>\<open>str(n)\<close> and \<^verbatim>\<open>str(n) + "k"\<close> resolve to
  \<open>n * 1000\<close> bits per second, for every natural number \<open>n\<close>, every preset and
  every duration.
\<close>

theorem C10_bitrate_string_times_1000:
  "resolve_bitrate (args\<lparr>arg_ts := None, arg_b := Some (digits_of n)\<rparr>) pc d = Inr (int n * 1000)
   \<and> resolve_bitrate (args\<lparr>arg_ts := None, arg_b := Some (digits_of n @ ''k'')\<rparr>) pc d
       = Inr (int n * 1000)"
  by (simp add: resolve_bitrate_def digits_of_nonempty match_bitrate_digits
        digits_of_all_digits py_int_digits_of)

theorem C10_witness:
  "resolve_bitrate (default_args\<lparr>arg_ts := None, arg_b := Some ''32''\<rparr>) voice_preset (Finite 300)
     = Inr 32000
   \<and> resolve_bitrate (default_args\<lparr>arg_ts := None, arg_b := Some ''32k''\<rparr>) voice_preset (Finite 300)
     = Inr 32000"
proof -
  have "digits_of 32 = ''32''"
    by (simp add: digits_of.simps digit_char_def)
  with C10_bitrate_string_times_1000
         [where args = default_args and n = 32 and pc = voice_preset and d = "Finite 300"]
  show ?thesis by simp
qed

subsection \<open>C1: the bounds of the encoding bitrate\<close>

text \<open>
  C1 as stated fails: the clamp to \<open>[6000, 512000]\<close> sits in
  \<^verbatim>\<open>compute_bitrate_for_target_size\<close> only. The explicit bitrate \<^verbatim>\<open>"1"\<close> under
  the voice preset, on a file of 300 seconds, is encoded at 1000 bits per
  second.
\<close>

theorem C1_counterexample:
  "map_option cmd_bitrate
     (jr_cmd (compress_audio track_wav track_opus voice_preset
        (default_args\<lparr>arg_b := Some ''1''\<rparr>) (file_ok 300))) = Some 1000
   \<and> (1000 :: int) < 6000"
  by (simp add: job_struct example_defs example_eval char_eval)

text \<open>
  C1, amended. For every job that reaches the encoder: when a target size is in
  effect (present and non-zero) the bitrate of the encoder command lies within
  \<open>[6000, 512000]\<close>; when neither a target size nor a bitrate string is in
  effect and the configuration is the catalogue entry of the chosen preset, it
  lies within the same bounds; when no target size but a bitrate string is in
  effect, the command carries the string's digits times 1000, unclamped.
\<close>

theorem C1_bitrate_bounds:
  assumes "jr_cmd (compress_audio inp out pc args env) = Some c"
  shows "(truthy_int (arg_ts args) \<noteq> None \<longrightarrow> 6000 \<le> cmd_bitrate c \<and> cmd_bitrate c \<le> 512000)
       \<and> (truthy_int (arg_ts args) = None \<and> truthy_str (arg_b args) = None
            \<and> PRESETS (arg_preset args) = Some pc
          \<longrightarrow> 6000 \<le> cmd_bitrate c \<and> cmd_bitrate c \<le> 512000)
       \<and> (\<forall>s. truthy_int (arg_ts args) = None \<and> truthy_str (arg_b args) = Some s
            \<longrightarrow> (\<exists>ds. match_bitrate s = Some ds \<and> cmd_bitrate c = py_int ds * 1000))"
proof -
  from compress_audio_cmd [OF assms] obtain d where
    rb: "resolve_bitrate args pc d = Inr (cmd_bitrate c)" by auto
  show ?thesis
    using rb
    by (auto simp: resolve_bitrate_def split: option.splits
             dest: compute_bitrate_bounds preset_bitrate_bounds)
qed

theorem C1_witness:
  "(\<exists>c. jr_cmd (compress_audio track_wav track_opus voice_preset
            (default_args\<lparr>arg_ts := Some 2500000\<rparr>) (file_ok 300)) = Some c
        \<and> truthy_int (arg_ts (default_args\<lparr>arg_ts := Some 2500000\<rparr>)) \<noteq> None
        \<and> 6000 \<le> cmd_bitrate c \<and> cmd_bitrate c \<le> 512000)
   \<and> (\<exists>c. jr_cmd (compress_audio track_wav track_opus voice_preset default_args (file_ok 300))
             = Some c
        \<and> truthy_int (arg_ts default_args) = None \<and> truthy_str (arg_b default_args) = None
        \<and> PRESETS (arg_preset default_args) = Some voice_preset
        \<and> 6000 \<le> cmd_bitrate c \<and> cmd_bitrate c \<le> 512000)
   \<and> (\<exists>c. jr_cmd (compress_audio track_wav track_opus voice_preset
            (default_args\<lparr>arg_b := Some ''1''\<rparr>) (file_ok 300)) = Some c
        \<and> truthy_int (arg_ts (default_args\<lparr>arg_b := Some ''1''\<rparr>)) = None
        \<and> truthy_str (arg_b (default_args\<lparr>arg_b := Some ''1''\<rparr>)) = Some ''1''
        \<and> match_bitrate ''1'' = Some ''1'' \<and> cmd_bitrate c = py_int ''1'' * 1000)"
proof -
  have "jr_cmd (compress_audio track_wav track_opus voice_preset
          (default_args\<lparr>arg_ts := Some 2500000\<rparr>) (file_ok 300)) \<noteq> None"
    by (simp add: job_struct example_defs example_eval)
  then obtain c1 where c1: "jr_cmd (compress_audio track_wav track_opus voice_preset
          (default_args\<lparr>arg_ts := Some 2500000\<rparr>) (file_ok 300)) = Some c1"
    by blast
  have "jr_cmd (compress_audio track_wav track_opus voice_preset default_args (file_ok 300))
          \<noteq> None"
    by (simp add: job_struct example_defs example_eval)
  then obtain c2 where c2: "jr_cmd (compress_audio track_wav track_opus voice_preset
          default_args (file_ok 300)) = Some c2"
    by blast
  have "jr_cmd (compress_audio track_wav track_opus voice_preset
          (default_args\<lparr>arg_b := Some ''1''\<rparr>) (file_ok 300)) \<noteq> None"
    by (simp add: job_struct example_defs example_eval char_eval)
  then obtain c3 where c3: "jr_cmd (compress_audio track_wav track_opus voice_preset
          (default_args\<lparr>arg_b := Some ''1''\<rparr>) (file_ok 300)) = Some c3"
    by blast
  have a1: "truthy_int (arg_ts (default_args\<lparr>arg_ts := Some 2500000\<rparr>)) \<noteq> None"
    by simp
  have a2: "truthy_int (arg_ts default_args) = None" "truthy_str (arg_b default_args) = None"
    "PRESETS (arg_preset default_args) = Some voice_preset"
    by (simp_all add: default_args_def PRESETS_def)
  have a3: "truthy_int (arg_ts (default_args\<lparr>arg_b := Some ''1''\<rparr>)) = None"
    "truthy_str (arg_b (default_args\<lparr>arg_b := Some ''1''\<rparr>)) = Some ''1''"
    "match_bitrate ''1'' = Some ''1''"
    by (simp_all add: default_args_def match_bitrate_def char_eval)
  from C1_bitrate_bounds [OF c1] a1
  have b1: "6000 \<le> cmd_bitrate c1 \<and> cmd_bitrate c1 \<le> 512000" by blast
  from C1_bitrate_bounds [OF c2] a2
  have b2: "6000 \<le> cmd_bitrate c2 \<and> cmd_bitrate c2 \<le> 512000" by blast
  from C1_bitrate_bounds [OF c3] a3
  have b3: "cmd_bitrate c3 = py_int ''1'' * 1000" by auto
  from c1 a1 b1 have "\<exists>c. jr_cmd (compress_audio track_wav track_opus voice_preset
            (default_args\<lparr>arg_ts := Some 2500000\<rparr>) (file_ok 300)) = Some c
        \<and> truthy_int (arg_ts (default_args\<lparr>arg_ts := Some 2500000\<rparr>)) \<noteq> None
        \<and> 6000 \<le> cmd_bitrate c \<and> cmd_bitrate c \<le> 512000"
    by blast
  moreover from c2 a2 b2 have "\<exists>c. jr_cmd (compress_audio track_wav track_opus voice_preset
            default_args (file_ok 300)) = Some c
        \<and> truthy_int (arg_ts default_args) = None \<and> truthy_str (arg_b default_args) = None
        \<and> PRESETS (arg_preset default_args) = Some voice_preset
        \<and> 6000 \<le> cmd_bitrate c \<and> cmd_bitrate c \<le> 512000"
    by blast
  moreover from c3 a3 b3 have "\<exists>c. jr_cmd (compress_audio track_wav track_opus voice_preset
            (default_args\<lparr>arg_b := Some ''1''\<rparr>) (file_ok 300)) = Some c
        \<and> truthy_int (arg_ts (default_args\<lparr>arg_b := Some ''1''\<rparr>)) = None
        \<and> truthy_str (arg_b (default_args\<lparr>arg_b := Some ''1''\<rparr>)) = Some ''1''
        \<and> match_bitrate ''1'' = Some ''1'' \<and> cmd_bitrate c = py_int ''1'' * 1000"
    by blast
  ultimately show ?thesis by blast
qed

subsection \<open>C2: which source decides the bitrate\<close>

lemma compress_audio_bitrate:
  assumes "fe_exists env" and "ffprobe_duration (fe_probe env) = Inr d"
  shows "jr_bitrate (compress_audio inp out pc args env) =
           (case resolve_bitrate args pc d of Inl e \<Rightarrow> None | Inr b \<Rightarrow> Some b)"
  using assms by (simp add: compress_audio_def Let_def split: sum.splits)

lemma estimate_64000: "print_estimate 64000 (Finite 300) 10000000 = Inr ()"
  by (simp add: num_eval)

lemma size_zero: "human_to_bytes ''0'' = Inr 0"
  by (simp add: human_to_bytes_def match_size_def py_float_digits_def scale_def char_eval
        upper_char_def float_of_int_def fl_eval)

lemma target_zero: "compute_bitrate_for_target_size 0 (Finite 300) = Inr 6000"
  by (simp add: num_eval)

lemmas main_struct = main_def determine_output_path_def derive_output_path_def PRESETS_def
  normalize_ext_for_codec_def joinpath_def path_parent_def path_stem_def path_suffix_def
  path_name_def root_of_def parse_parts_def path_of_string_def

text \<open>
  C2 as stated fails for a target size of zero bytes: line 234 tests the
  truth of \<^verbatim>\<open>args.ts\<close>, so \<^verbatim>\<open>-ts 0 -b 64k\<close> encodes at the explicit 64000 bits
  per second, where the target-size computation would give 6000.
\<close>

theorem C2_counterexample:
  "map (map_option cmd_bitrate \<circ> jr_cmd)
     (jobs_of (main (default_args\<lparr>arg_target_size := Some ''0'', arg_bitrate := Some ''64k''\<rparr>)
                (one_file 300))) = [Some 64000]
   \<and> compute_bitrate_for_target_size 0 (Finite 300) = Inr 6000"
  by (simp add: main_struct one_file_def size_zero target_zero job_struct example_defs
        example_eval estimate_64000 char_eval)

text \<open>
  C2, amended. For every job on an existing file with a positive probed
  duration: if a non-zero target size is given, the bitrate is
  \<^verbatim>\<open>int(target_bytes * 8 * 0.97 / duration)\<close> in float arithmetic, clamped to
  \<open>[6000, 512000]\<close>, whatever the explicit bitrate and the preset are (and the
  job raises when the float computation overflows); else if a non-empty
  bitrate string is given, its digits times 1000 are used, whatever the preset
  is; else the preset default is used. A target size of 2500000 bytes at 300
  seconds resolves to 64666.
\<close>

theorem C2_bitrate_precedence:
  assumes "fe_exists env" and "ffprobe_duration (fe_probe env) = Inr (Finite r)" and "0 < r"
  shows "(\<forall>t. arg_ts args = Some t \<and> t \<noteq> 0 \<longrightarrow>
            jr_bitrate (compress_audio inp out pc args env) =
              (case bind_err (float_of_int (t * 8))
                      (\<lambda>tb. bind_err (fdiv (fmul tb (fl (97 / 100))) (Finite r)) int_of_float) of
                 Inl e \<Rightarrow> None
               | Inr br \<Rightarrow> Some (max 6000 (min br 512000))))
       \<and> (\<forall>s. truthy_int (arg_ts args) = None \<and> arg_b args = Some s \<and> s \<noteq> [] \<longrightarrow>
            jr_bitrate (compress_audio inp out pc args env) =
              (case match_bitrate s of None \<Rightarrow> None | Some ds \<Rightarrow> Some (py_int ds * 1000)))
       \<and> (truthy_int (arg_ts args) = None \<and> truthy_str (arg_b args) = None \<longrightarrow>
            jr_bitrate (compress_audio inp out pc args env) = Some (pc_bitrate_bps pc))
       \<and> (arg_ts args = Some 2500000 \<and> r = 300 \<longrightarrow>
            jr_bitrate (compress_audio inp out pc args env) = Some 64666)"
proof -
  note jb = compress_audio_bitrate [OF assms(1,2)]
  have ts: "\<And>t. compute_bitrate_for_target_size t (Finite r) =
              bind_err
                (bind_err (float_of_int (t * 8))
                   (\<lambda>tb. bind_err (fdiv (fmul tb (fl (97 / 100))) (Finite r)) int_of_float))
                (\<lambda>br. Inr (max 6000 (min br 512000)))"
    using assms(3)
    by (simp add: compute_bitrate_for_target_size_def bind_err_def split: sum.splits)
  show ?thesis
    using target_2500000_at_300
    by (auto simp: jb resolve_bitrate_def ts bind_err_def split: sum.splits option.splits)
qed


theorem C2_witness:
  "fe_exists (file_ok 300) \<and> ffprobe_duration (fe_probe (file_ok 300)) = Inr (Finite 300)
   \<and> (0 :: rat) < 300
   \<and> jr_bitrate (compress_audio track_wav track_opus voice_preset
        (default_args\<lparr>arg_ts := Some 2500000, arg_b := Some ''64k''\<rparr>) (file_ok 300)) = Some 64666
   \<and> jr_bitrate (compress_audio track_wav track_opus voice_preset
        (default_args\<lparr>arg_b := Some ''64k''\<rparr>) (file_ok 300)) = Some 64000
   \<and> jr_bitrate (compress_audio track_wav track_opus voice_preset default_args (file_ok 300))
        = Some 32000"
proof -
  have h1: "fe_exists (file_ok 300)" by (simp add: file_ok_def)
  have h2: "ffprobe_duration (fe_probe (file_ok 300)) = Inr (Finite 300)"
    by (simp add: file_ok_def probe_ok_def ffprobe_duration_def)
  have h3: "(0 :: rat) < 300" by simp
  have m: "match_bitrate ''64k'' = Some ''64''" "py_int ''64'' = 64"
    by (simp_all add: match_bitrate_def char_eval)
  from C2_bitrate_precedence [OF h1 h2 h3, where args = "default_args\<lparr>arg_ts := Some 2500000,
      arg_b := Some ''64k''\<rparr>" and pc = voice_preset and inp = track_wav and out = track_opus]
  have "arg_ts (default_args\<lparr>arg_ts := Some 2500000, arg_b := Some ''64k''\<rparr>) = Some 2500000
          \<and> (300 :: rat) = 300
        \<longrightarrow> jr_bitrate (compress_audio track_wav track_opus voice_preset
              (default_args\<lparr>arg_ts := Some 2500000, arg_b := Some ''64k''\<rparr>) (file_ok 300))
            = Some 64666"
    by blast
  then have r1: "jr_bitrate (compress_audio track_wav track_opus voice_preset
        (default_args\<lparr>arg_ts := Some 2500000, arg_b := Some ''64k''\<rparr>) (file_ok 300)) = Some 64666"
    by simp
  from C2_bitrate_precedence [OF h1 h2 h3, where args = "default_args\<lparr>arg_b := Some ''64k''\<rparr>"
      and pc = voice_preset and inp = track_wav and out = track_opus] m
  have r2: "jr_bitrate (compress_audio track_wav track_opus voice_preset
        (default_args\<lparr>arg_b := Some ''64k''\<rparr>) (file_ok 300)) = Some 64000"
    by (simp add: default_args_def)
  from C2_bitrate_precedence [OF h1 h2 h3, where args = default_args
      and pc = voice_preset and inp = track_wav and out = track_opus]
  have r3: "jr_bitrate (compress_audio track_wav track_opus voice_preset default_args (file_ok 300))
        = Some 32000"
    by (simp add: default_args_def voice_preset_def)
  from h1 h2 h3 r1 r2 r3 show ?thesis by blast
qed

subsection \<open>C3: when duration probing fails\<close>

lemma stream_loop_find:
  "stream_loop ss =
     (case find (\<lambda>s. s_codec_type s = Some ''audio'' \<and> s_duration s \<noteq> None) ss of
        None \<Rightarrow> Inr None
      | Some s \<Rightarrow> (case s_duration s of
                     Some (Inl e) \<Rightarrow> Inl e
                   | Some (Inr f) \<Rightarrow> Inr (Some f)
                   | None \<Rightarrow> Inr None))"
  by (induction ss) (auto split: option.splits sum.splits)

lemma selected_duration:
  "(case info_format info of
      Some (Some (Inl e)) \<Rightarrow> Inl e
    | Some (Some (Inr f)) \<Rightarrow> Inr (Some f)
    | _ \<Rightarrow> stream_loop (info_streams info))
   = (case duration_source info of
        None \<Rightarrow> Inr None
      | Some (Inl e) \<Rightarrow> Inl e
      | Some (Inr f) \<Rightarrow> Inr (Some f))"
  by (auto simp: duration_source_def stream_loop_find split: option.splits sum.splits)

lemma ffprobe_duration_source:
  "ffprobe_duration out =
     (if po_code out \<noteq> 0 then Inl (RuntimeError ''ffprobe failed for '')
      else case po_info out of
             None \<Rightarrow> Inl JSONDecodeError
           | Some info \<Rightarrow>
               (case duration_source info of
                  None \<Rightarrow> Inl (RuntimeError ''Could not determine duration for '')
                | Some (Inl e) \<Rightarrow> Inl e
                | Some (Inr (Finite r)) \<Rightarrow> Inr (Finite r)
                | Some (Inr _) \<Rightarrow> Inl (RuntimeError ''Could not determine duration for '')))"
  unfolding ffprobe_duration_def selected_duration
  by (auto split: option.splits sum.splits pyfloat.splits)

text \<open>
  C3 as stated fails: \<^verbatim>\<open>ffprobe_duration\<close> rejects a missing and a non-finite
  duration only (line 125). A container-level duration of zero or of $-5$
  seconds is returned.
\<close>

theorem C3_counterexample:
  "ffprobe_duration (probe_ok 0) = Inr (Finite 0)
   \<and> ffprobe_duration (probe_ok (- 5)) = Inr (Finite (- 5))"
  by (simp add: ffprobe_duration_def probe_ok_def)

text \<open>
  C3, amended. Probing returns a float exactly when the tool exits with zero,
  its output is parsed, and the duration entry selected -- the container-level
  one when present, else that of the first audio stream reporting one -- is
  turned by \<^verbatim>\<open>float\<close> into a finite value, which is then the result, zero and
  negative values included. It raises exactly when the tool exits non-zero, the
  output is not parsed, no entry is found, \<^verbatim>\<open>float\<close> raises on the entry, or
  the value is NaN or infinite.
\<close>

theorem C3_probe_outcome:
  "(ffprobe_duration out = Inr f \<longleftrightarrow>
      po_code out = 0
      \<and> (\<exists>info r. po_info out = Some info \<and> duration_source info = Some (Inr (Finite r))
            \<and> f = Finite r))
   \<and> ((\<exists>e. ffprobe_duration out = Inl e) \<longleftrightarrow>
      po_code out \<noteq> 0 \<or> po_info out = None
      \<or> (\<exists>info. po_info out = Some info
            \<and> (duration_source info = None
               \<or> (\<exists>e. duration_source info = Some (Inl e))
               \<or> duration_source info = Some (Inr NaN)
               \<or> (\<exists>s. duration_source info = Some (Inr (Infinity s))))))"
  unfolding ffprobe_duration_source
  by (auto split: option.splits sum.splits pyfloat.splits)

theorem C3_witness:
  "ffprobe_duration probe_streams = Inr (Finite 12)
   \<and> (\<exists>e. ffprobe_duration probe_failed = Inl e)"
proof -
  have "po_code probe_streams = 0
        \<and> (\<exists>info r. po_info probe_streams = Some info
              \<and> duration_source info = Some (Inr (Finite r)) \<and> Finite 12 = Finite r)"
    by (simp add: probe_streams_def duration_source_def)
  with C3_probe_outcome [of probe_streams "Finite 12"]
  have "ffprobe_duration probe_streams = Inr (Finite 12)" by blast
  moreover have "po_code probe_failed \<noteq> 0" by (simp add: probe_failed_def)
  with C3_probe_outcome [of probe_failed "Finite 0"]
  have "\<exists>e. ffprobe_duration probe_failed = Inl e" by blast
  ultimately show ?thesis by blast
qed


subsection \<open>C5: the low-pass of the voice preset\<close>

lemma lowpass_cutoffs_append [simp]:
  "lowpass_cutoffs (xs @ ys) = lowpass_cutoffs xs @ lowpass_cutoffs ys"
  by (induction xs rule: lowpass_cutoffs.induct) simp_all

lemma voice_chain_lowpass:
  assumes "arg_preset args = ''voice''" and "arg_lp args = None"
  shows "lowpass_cutoffs (build_filterchain (adjust_lowpass args b) voice_preset)
           = (if b \<le> 24000 then [8000] else [12000])"
  using assms
  by (simp add: build_filterchain_def adjust_lowpass_def voice_preset_def Let_def
           split: option.splits)

lemma estimate_20000: "print_estimate 20000 (Finite 300) 10000000 = Inr ()"
  by (simp add: num_eval)

lemma estimate_40000: "print_estimate 40000 (Finite 300) 10000000 = Inr ()"
  by (simp add: num_eval)

text \<open>
  C5. For a single job under the voice preset with no explicit low-pass
  override, the filter chain handed to the encoder has exactly one low-pass
  stage: at 8000 Hz if the resolved bitrate is at most 24000 bits per second,
  at the preset's 12000 Hz if it is above.
\<close>

theorem C5_voice_lowpass:
  assumes "arg_preset args = ''voice''" and "arg_lp args = None"
    and "jr_cmd (compress_audio inp out voice_preset args env) = Some c"
  shows "lowpass_cutoffs (cmd_af c) = (if cmd_bitrate c \<le> 24000 then [8000] else [12000])"
proof -
  from compress_audio_cmd [OF assms(3)]
  have "cmd_af c = build_filterchain (adjust_lowpass args (cmd_bitrate c)) voice_preset"
    by auto
  with voice_chain_lowpass [OF assms(1,2)] show ?thesis by simp
qed

theorem C5_witness:
  "(\<exists>c. jr_cmd (compress_audio track_wav track_opus voice_preset
            (default_args\<lparr>arg_b := Some ''20k''\<rparr>) (file_ok 300)) = Some c
        \<and> cmd_bitrate c = 20000 \<and> lowpass_cutoffs (cmd_af c) = [8000])
   \<and> (\<exists>c. jr_cmd (compress_audio track_wav track_opus voice_preset
            (default_args\<lparr>arg_b := Some ''40k''\<rparr>) (file_ok 300)) = Some c
        \<and> cmd_bitrate c = 40000 \<and> lowpass_cutoffs (cmd_af c) = [12000])"
proof -
  have p: "arg_preset (default_args\<lparr>arg_b := Some ''20k''\<rparr>) = ''voice''"
    "arg_lp (default_args\<lparr>arg_b := Some ''20k''\<rparr>) = None"
    "arg_preset (default_args\<lparr>arg_b := Some ''40k''\<rparr>) = ''voice''"
    "arg_lp (default_args\<lparr>arg_b := Some ''40k''\<rparr>) = None"
    by (simp_all add: default_args_def)
  have "map_option cmd_bitrate (jr_cmd (compress_audio track_wav track_opus voice_preset
            (default_args\<lparr>arg_b := Some ''20k''\<rparr>) (file_ok 300))) = Some 20000"
    by (simp add: job_struct example_defs example_eval estimate_20000 char_eval)
  then obtain c1 where c1: "jr_cmd (compress_audio track_wav track_opus voice_preset
            (default_args\<lparr>arg_b := Some ''20k''\<rparr>) (file_ok 300)) = Some c1"
    and b1: "cmd_bitrate c1 = 20000" by auto
  have "map_option cmd_bitrate (jr_cmd (compress_audio track_wav track_opus voice_preset
            (default_args\<lparr>arg_b := Some ''40k''\<rparr>) (file_ok 300))) = Some 40000"
    by (simp add: job_struct example_defs example_eval estimate_40000 char_eval)
  then obtain c2 where c2: "jr_cmd (compress_audio track_wav track_opus voice_preset
            (default_args\<lparr>arg_b := Some ''40k''\<rparr>) (file_ok 300)) = Some c2"
    and b2: "cmd_bitrate c2 = 40000" by auto
  from C5_voice_lowpass [OF p(1,2) c1] b1 have l1: "lowpass_cutoffs (cmd_af c1) = [8000]"
    by simp
  from C5_voice_lowpass [OF p(3,4) c2] b2 have l2: "lowpass_cutoffs (cmd_af c2) = [12000]"
    by simp
  from c1 b1 l1 c2 b2 l2 show ?thesis by blast
qed

subsection \<open>C6: the order of the filter stages\<close>

text \<open>
  C6. Whatever the options and the preset configuration are, the stages of the
  chain appear in the order silence-trim, high-pass, low-pass, loudness
  normalisation, each at most once; and the chain is empty exactly when no
  stage is enabled.
\<close>

theorem C6_stage_order:
  "sorted_wrt (<) (map stage_rank (build_filterchain args pc))
   \<and> (build_filterchain args pc = [] \<longleftrightarrow>
        \<not> arg_st args
        \<and> truthy_int (case arg_hp args of Some h \<Rightarrow> Some h | None \<Rightarrow> pc_highpass pc) = None
        \<and> truthy_int (case arg_lp args of Some l \<Rightarrow> Some l | None \<Rightarrow> pc_lowpass pc) = None
        \<and> arg_lufs args = None \<and> pc_lufs pc = None)"
  by (auto simp: build_filterchain_def Let_def sorted_wrt_append split: option.splits)

theorem C6_witness:
  "map stage_rank (build_filterchain (default_args\<lparr>arg_st := True\<rparr>) voice_preset) = [0, 1, 2, 3]
   \<and> sorted_wrt (<) (map stage_rank (build_filterchain (default_args\<lparr>arg_st := True\<rparr>) voice_preset))
   \<and> build_filterchain (default_args\<lparr>arg_preset := ''music''\<rparr>) (music_preset\<lparr>pc_lufs := None\<rparr>) = []"
proof -
  have "map stage_rank (build_filterchain (default_args\<lparr>arg_st := True\<rparr>) voice_preset) = [0, 1, 2, 3]"
    by (simp add: build_filterchain_def default_args_def voice_preset_def)
  moreover from C6_stage_order [of "default_args\<lparr>arg_st := True\<rparr>" voice_preset]
  have "sorted_wrt (<) (map stage_rank (build_filterchain (default_args\<lparr>arg_st := True\<rparr>) voice_preset))"
    by blast
  moreover from C6_stage_order [of "default_args\<lparr>arg_preset := ''music''\<rparr>" "music_preset\<lparr>pc_lufs := None\<rparr>"]
  have "build_filterchain (default_args\<lparr>arg_preset := ''music''\<rparr>) (music_preset\<lparr>pc_lufs := None\<rparr>) = []"
    by (simp add: default_args_def music_preset_def)
  ultimately show ?thesis by blast
qed


subsection \<open>C7: the output path is never the input path\<close>

lemma split_sep_no_sep: "c \<notin> set s \<Longrightarrow> split_sep c s = [s]"
  by (induction s) auto

lemma parse_parts_single:
  assumes "CHR ''/'' \<notin> set s" and "s \<noteq> []" and "s \<noteq> ''.''"
  shows "parse_parts s = [s]"
  using assms by (simp add: parse_parts_def split_sep_no_sep)

lemma root_of_no_sep: "CHR ''/'' \<notin> set s \<Longrightarrow> root_of s = []"
  by (cases s) (auto simp: root_of_def)

lemma stem_suffix_name: "path_stem p @ path_suffix p = path_name p"
  by (simp add: path_stem_def path_suffix_def Let_def)

lemma set_stem_suffix:
  "set (path_stem p) \<subseteq> set (path_name p)" "set (path_suffix p) \<subseteq> set (path_name p)"
  by (auto simp: path_stem_def path_suffix_def Let_def dest: in_set_takeD in_set_dropD)

lemma path_name_no_sep:
  assumes "path_ok p"
  shows "CHR ''/'' \<notin> set (path_name p)"
proof (cases "path_parts p = []")
  case True
  then show ?thesis by (simp add: path_name_def)
next
  case False
  then have "last (path_parts p) \<in> set (path_parts p)" by simp
  with assms False show ?thesis
    by (auto simp: path_ok_def path_name_def list_all_iff)
qed

lemma compressed_name:
  assumes "path_ok p"
  shows "joinpath (path_parent p) (path_stem p @ ''-compressed'' @ path_suffix p)
           = Path (path_root p)
               (butlast (path_parts p) @ [path_stem p @ ''-compressed'' @ path_suffix p])"
proof -
  let ?n = "path_stem p @ ''-compressed'' @ path_suffix p"
  from path_name_no_sep [OF assms] set_stem_suffix [of p]
  have ns: "CHR ''/'' \<notin> set ?n" by auto
  have ne: "?n \<noteq> []" "?n \<noteq> ''.''" by (auto simp: append_eq_Cons_conv)
  have pp: "parse_parts ?n = [?n]" by (rule parse_parts_single [OF ns ne])
  have rt: "root_of ?n = []" by (rule root_of_no_sep [OF ns])
  obtain r ps where p: "p = Path r ps" by (cases p)
  show ?thesis
    unfolding joinpath_def rt pp
    by (simp add: p path_parent_def)
qed

lemma compressed_differs:
  "Path (path_root p) (butlast (path_parts p) @ [path_stem p @ ''-compressed'' @ path_suffix p])
     \<noteq> p"
proof
  assume eq: "Path (path_root p)
      (butlast (path_parts p) @ [path_stem p @ ''-compressed'' @ path_suffix p]) = p"
  obtain r ps where p: "p = Path r ps" by (cases p)
  from eq p have ps: "butlast ps @ [path_stem p @ ''-compressed'' @ path_suffix p] = ps" by simp
  then have "ps \<noteq> []" by auto
  then have "ps = butlast ps @ [last ps]" by simp
  with ps have "path_stem p @ ''-compressed'' @ path_suffix p = last ps"
    by (metis append1_eq_conv)
  moreover from \<open>ps \<noteq> []\<close> p have "path_name p = last ps" by (simp add: path_name_def)
  ultimately have "length (path_stem p @ ''-compressed'' @ path_suffix p) = length (path_name p)"
    by simp
  then show False
    by (simp add: stem_suffix_name [symmetric])
qed

text \<open>Every path that \<^verbatim>\<open>Path(s)\<close> builds satisfies \<open>path_ok\<close>.\<close>

lemma split_sep_parts: "w \<in> set (split_sep c s) \<Longrightarrow> c \<notin> set w"
proof (induction s arbitrary: w)
  case Nil
  then show ?case by simp
next
  case (Cons x xs)
  then show ?case by (auto split: if_splits list.splits)
qed

lemma path_of_string_ok: "path_ok (path_of_string s)"
  by (auto simp: path_ok_def path_of_string_def parse_parts_def list_all_iff
           dest: split_sep_parts)

lemmas path_eval = derive_output_path_def determine_output_path_def normalize_ext_for_codec_def
  joinpath_def path_parent_def path_stem_def path_suffix_def path_name_def root_of_def
  parse_parts_def path_of_string_def str_or_def

text \<open>
  C7. For every input file, all options, every preset configuration and every
  output mode, the chosen output path differs from the input path; when the
  explicit or derived path equals the input, the output is the input's parent
  joined with stem, \<^verbatim>\<open>-compressed\<close> and suffix; otherwise it is the explicit or
  derived path. For \<^verbatim>\<open>track.wav\<close> under the voice preset with no output
  and no suffix it is \<^verbatim>\<open>track.opus\<close>.
\<close>

theorem C7_output_differs_from_input:
  assumes "path_ok audio_file"
  shows "determine_output_path args pc single_file output_is_dir audio_file \<noteq> audio_file
       \<and> (derive_output_path args pc single_file output_is_dir audio_file = audio_file \<longrightarrow>
            determine_output_path args pc single_file output_is_dir audio_file
              = Path (path_root audio_file)
                  (butlast (path_parts audio_file)
                     @ [path_stem audio_file @ ''-compressed'' @ path_suffix audio_file]))
       \<and> (derive_output_path args pc single_file output_is_dir audio_file \<noteq> audio_file \<longrightarrow>
            determine_output_path args pc single_file output_is_dir audio_file
              = derive_output_path args pc single_file output_is_dir audio_file)"
proof (cases "derive_output_path args pc single_file output_is_dir audio_file = audio_file")
  case True
  then have "determine_output_path args pc single_file output_is_dir audio_file
      = Path (path_root audio_file)
          (butlast (path_parts audio_file)
             @ [path_stem audio_file @ ''-compressed'' @ path_suffix audio_file])"
    unfolding determine_output_path_def Let_def compressed_name [OF assms]
    by (simp only: simp_thms if_True)
  with True compressed_differs [of audio_file] show ?thesis by metis
next
  case False
  then have "determine_output_path args pc single_file output_is_dir audio_file
      = derive_output_path args pc single_file output_is_dir audio_file"
    unfolding determine_output_path_def Let_def by (simp only: simp_thms if_False)
  with False show ?thesis by metis
qed

theorem C7_witness:
  "path_ok track_wav
   \<and> determine_output_path default_args voice_preset True False track_wav = track_opus
   \<and> track_opus \<noteq> track_wav
   \<and> derive_output_path (default_args\<lparr>arg_output := Some ''track.wav''\<rparr>) voice_preset
        True False track_wav = track_wav
   \<and> determine_output_path (default_args\<lparr>arg_output := Some ''track.wav''\<rparr>) voice_preset
        True False track_wav = Path [] [''track-compressed.wav'']"
proof -
  have ok: "path_ok track_wav" by (simp add: path_ok_def track_wav_def)
  have d1: "derive_output_path default_args voice_preset True False track_wav = track_opus"
    by (simp add: path_eval example_defs)
  have ne: "track_opus \<noteq> track_wav" by (simp add: track_opus_def track_wav_def)
  have d2: "derive_output_path (default_args\<lparr>arg_output := Some ''track.wav''\<rparr>) voice_preset
        True False track_wav = track_wav"
    by (simp add: path_eval example_defs)
  have nm: "Path (path_root track_wav)
                  (butlast (path_parts track_wav)
                     @ [path_stem track_wav @ ''-compressed'' @ path_suffix track_wav])
            = Path [] [''track-compressed.wav'']"
    by (simp add: path_eval example_defs)
  from C7_output_differs_from_input [OF ok, of default_args voice_preset True False] d1 ne
  have r1: "determine_output_path default_args voice_preset True False track_wav = track_opus"
    by simp
  from C7_output_differs_from_input [OF ok, of "default_args\<lparr>arg_output := Some ''track.wav''\<rparr>"
      voice_preset True False] d2 nm
  have r2: "determine_output_path (default_args\<lparr>arg_output := Some ''track.wav''\<rparr>) voice_preset
        True False track_wav = Path [] [''track-compressed.wav'']"
    by simp
  from ok r1 ne d2 r2 show ?thesis by blast
qed


subsection \<open>The loop over the files\<close>

lemma process_files_run_jobs:
  "process_files pc sf oid args files s f js =
     Completed (s + length (filter jr_ok (run_jobs pc sf oid args files)))
               (f + length (filter (\<lambda>j. \<not> jr_ok j) (run_jobs pc sf oid args files)))
               (js @ run_jobs pc sf oid args files)"
proof (induction files arbitrary: args s f js)
  case Nil
  then show ?case by simp
next
  case (Cons fe rest)
  obtain af env where fe: "fe = (af, env)" by (cases fe)
  show ?case unfolding fe by (simp add: Let_def Cons.IH)
qed






subsection \<open>The loop with printing and directory creation\<close>

text \<open>When every call succeeds, the run is the one of \<open>main\<close>.\<close>

lemma do_print_quiet [simp]: "do_print (\<lambda>site. None) s = Inr ()"
  by (simp add: do_print_def)

lemma estimate_io_quiet [simp]: "estimate_io b d n (\<lambda>site. None) = print_estimate b d n"
  by (simp add: estimate_io_def print_estimate_def)

lemma run_encoder_io_quiet [simp]: "run_encoder_io r env cmd (\<lambda>site. None) = run_encoder r env cmd"
  by (simp add: run_encoder_io_def run_encoder_def split: prod.splits sum.splits)

lemma encode_job_io_quiet [simp]:
  "encode_job_io r pc args b d env (\<lambda>site. None) = encode_job r pc args b d env"
  by (simp add: encode_job_io_def encode_job_def Let_def split: sum.splits)

lemma try_body_io_quiet:
  "fe_exists env \<Longrightarrow> try_body_io inp out pc args env (\<lambda>site. None) = compress_audio inp out pc args env"
  by (simp add: try_body_io_def compress_audio_def Let_def split: sum.splits)

lemma compress_audio_io_quiet [simp]:
  "compress_audio_io inp out pc args env (\<lambda>site. None) = Inr (compress_audio inp out pc args env)"
proof (cases "fe_exists env")
  case False
  then show ?thesis by (simp add: compress_audio_io_def compress_audio_def)
next
  case True
  then show ?thesis
    by (simp add: compress_audio_io_def try_body_io_quiet Let_def split: option.splits)
qed

lemma quiet_file_simps [simp]:
  "fio_mkdir quiet_file = None" "fio_print quiet_file = (\<lambda>site. None)"
  by (simp_all add: quiet_file_def)



lemma run_encoder_io_input [simp]: "jr_input (run_encoder_io r env cmd pr) = jr_input r"
  by (simp add: run_encoder_io_def split: prod.splits sum.splits option.splits)

lemma encode_job_io_input [simp]: "jr_input (encode_job_io r pc args b d env pr) = jr_input r"
  by (simp add: encode_job_io_def Let_def split: sum.splits)

lemma try_body_io_input [simp]: "jr_input (try_body_io inp out pc args env pr) = inp"
  by (simp add: try_body_io_def Let_def split: sum.splits)

lemma run_encoder_io_args [simp]: "jr_args (run_encoder_io r env cmd pr) = jr_args r"
  by (simp add: run_encoder_io_def split: prod.splits sum.splits option.splits)

lemma encode_job_io_args [simp]: "jr_args (encode_job_io r pc args b d env pr) = jr_args r"
  by (simp add: encode_job_io_def Let_def split: sum.splits)

lemma try_body_io_output_arg [simp]:
  "arg_output (jr_args (try_body_io inp out pc args env pr)) = arg_output args"
  by (simp add: try_body_io_def Let_def adjust_lowpass_def split: sum.splits)







subsection \<open>C8: one failing file does not stop the batch\<close>





subsection \<open>C4: malformed global options\<close>








subsection \<open>C9: the forced low-pass outlives its job\<close>

lemma compress_audio_args:
  "jr_args (compress_audio inp out pc args env) = args
   \<or> (\<exists>b. jr_bitrate (compress_audio inp out pc args env) = Some b
          \<and> jr_args (compress_audio inp out pc args env) = adjust_lowpass args b)"
proof (cases "ffprobe_duration (fe_probe env)")
  case (Inl e)
  then show ?thesis by (simp add: compress_audio_def Let_def)
next
  case d: (Inr d)
  then show ?thesis
    by (cases "resolve_bitrate args pc d") (simp_all add: compress_audio_def Let_def)
qed

lemma compress_audio_bitrate_args:
  assumes "jr_bitrate (compress_audio inp out pc args env) = Some b"
  shows "jr_args (compress_audio inp out pc args env) = adjust_lowpass args b"
proof (cases "ffprobe_duration (fe_probe env)")
  case (Inl e)
  with assms show ?thesis by (simp add: compress_audio_def Let_def split: if_splits)
next
  case d: (Inr d)
  with assms show ?thesis
    by (cases "resolve_bitrate args pc d")
       (simp_all add: compress_audio_def Let_def split: if_splits)
qed

lemma adjust_lowpass_preset [simp]: "arg_preset (adjust_lowpass args b) = arg_preset args"
  by (simp add: adjust_lowpass_def)

lemma adjust_lowpass_lp:
  "arg_lp (adjust_lowpass args b) = arg_lp args \<or> arg_lp (adjust_lowpass args b) = Some 8000"
  by (simp add: adjust_lowpass_def)

lemma adjust_lowpass_set [simp]: "arg_lp args = Some l \<Longrightarrow> adjust_lowpass args b = args"
  by (simp add: adjust_lowpass_def)

lemma chain_lp_8000:
  "arg_lp args = Some 8000 \<Longrightarrow> lowpass_cutoffs (build_filterchain args pc) = [8000]"
  by (simp add: build_filterchain_def Let_def split: option.splits)

lemma job_lp_set:
  assumes "arg_lp args = Some 8000"
  shows "lp_forced (compress_audio inp out pc args env)"
proof -
  from compress_audio_args [of inp out pc args env] assms
  have a: "jr_args (compress_audio inp out pc args env) = args" by auto
  have "\<And>c. jr_cmd (compress_audio inp out pc args env) = Some c
          \<Longrightarrow> lowpass_cutoffs (cmd_af c) = [8000]"
  proof -
    fix c assume "jr_cmd (compress_audio inp out pc args env) = Some c"
    from compress_audio_cmd [OF this] assms
    have "cmd_af c = build_filterchain args pc" by auto
    with assms show "lowpass_cutoffs (cmd_af c) = [8000]" by (simp add: chain_lp_8000)
  qed
  with a assms show ?thesis by (simp add: lp_forced_def)
qed

lemma run_jobs_lp_set:
  "arg_lp args = Some 8000 \<Longrightarrow> j \<in> set (run_jobs pc sf oid args files) \<Longrightarrow> lp_forced j"
proof (induction files arbitrary: args)
  case Nil
  then show ?case by simp
next
  case (Cons fe rest)
  obtain af env where fe: "fe = (af, env)" by (cases fe)
  let ?r = "compress_audio af (determine_output_path args pc sf oid af) pc args env"
  from job_lp_set [OF Cons.prems(1)] have r: "lp_forced ?r" .
  then have "arg_lp (jr_args ?r) = Some 8000" by (simp add: lp_forced_def)
  from Cons.IH [OF this] r Cons.prems(2) show ?case unfolding fe by auto
qed

lemma job_low_bitrate:
  assumes "arg_preset args = ''voice''" and "arg_lp args = None"
    and "jr_bitrate (compress_audio inp out pc args env) = Some b" and "b \<le> 24000"
  shows "lp_forced (compress_audio inp out pc args env)"
proof -
  from compress_audio_bitrate_args [OF assms(3)] assms(1,2,4)
  have a: "jr_args (compress_audio inp out pc args env) = args\<lparr>arg_lp := Some 8000\<rparr>"
    by (simp add: adjust_lowpass_def)
  have "\<And>c. jr_cmd (compress_audio inp out pc args env) = Some c
          \<Longrightarrow> lowpass_cutoffs (cmd_af c) = [8000]"
  proof -
    fix c assume "jr_cmd (compress_audio inp out pc args env) = Some c"
    from compress_audio_cmd [OF this] assms(3)
    have "cmd_af c = build_filterchain (adjust_lowpass args b) pc" by auto
    with assms(1,2,4) show "lowpass_cutoffs (cmd_af c) = [8000]"
      by (simp add: adjust_lowpass_def chain_lp_8000)
  qed
  with a show ?thesis by (simp add: lp_forced_def)
qed

lemma run_jobs_voice_lowpass:
  assumes "arg_preset args = ''voice''" and "arg_lp args = None"
    and "i \<le> k" and "k < length (run_jobs pc sf oid args files)"
    and "jr_bitrate (run_jobs pc sf oid args files ! i) = Some b" and "b \<le> 24000"
  shows "lp_forced (run_jobs pc sf oid args files ! k)"
  using assms
proof (induction files arbitrary: args i k)
  case Nil
  then show ?case by simp
next
  case (Cons fe rest)
  obtain af env where fe: "fe = (af, env)" by (cases fe)
  let ?r = "compress_audio af (determine_output_path args pc sf oid af) pc args env"
  have js: "run_jobs pc sf oid args (fe # rest) = ?r # run_jobs pc sf oid (jr_args ?r) rest"
    unfolding fe by simp
  have pres: "arg_preset (jr_args ?r) = ''voice''"
    using compress_audio_args [of af "determine_output_path args pc sf oid af" pc args env]
      Cons.prems(1) by auto
  have lp: "arg_lp (jr_args ?r) = None \<or> arg_lp (jr_args ?r) = Some 8000"
    using compress_audio_args [of af "determine_output_path args pc sf oid af" pc args env]
      Cons.prems(2) adjust_lowpass_lp by (metis)
  show ?case
  proof (cases k)
    case 0
    with Cons.prems(3) have "i = 0" by simp
    with Cons.prems(5) js have "jr_bitrate ?r = Some b" by simp
    from job_low_bitrate [OF Cons.prems(1,2) this Cons.prems(6)] 0 js show ?thesis by simp
  next
    case (Suc k')
    with Cons.prems(4) js have k': "k' < length (run_jobs pc sf oid (jr_args ?r) rest)" by simp
    show ?thesis
    proof (cases i)
      case 0
      with Cons.prems(5) js have "jr_bitrate ?r = Some b" by simp
      from job_low_bitrate [OF Cons.prems(1,2) this Cons.prems(6)]
      have "arg_lp (jr_args ?r) = Some 8000" by (simp add: lp_forced_def)
      from run_jobs_lp_set [OF this nth_mem [OF k']]
      have "lp_forced (run_jobs pc sf oid (jr_args ?r) rest ! k')" .
      with Suc js show ?thesis by simp
    next
      case i': (Suc i')
      from lp show ?thesis
      proof
        assume n: "arg_lp (jr_args ?r) = None"
        from i' Suc Cons.prems(3) have le: "i' \<le> k'" by simp
        from i' Cons.prems(5) js
        have b: "jr_bitrate (run_jobs pc sf oid (jr_args ?r) rest ! i') = Some b" by simp
        from Cons.IH [OF pres n le k' b Cons.prems(6)] Suc js show ?thesis by simp
      next
        assume "arg_lp (jr_args ?r) = Some 8000"
        from run_jobs_lp_set [OF this nth_mem [OF k']]
        have "lp_forced (run_jobs pc sf oid (jr_args ?r) rest ! k')" .
        with Suc js show ?thesis by simp
      qed
    qed
  qed
qed

lemma main_jobs:
  assumes "main args w = Completed s f js"
  shows "\<exists>pc sf oid ts. js = run_jobs pc sf oid
            (args\<lparr>arg_ts := ts, arg_b := arg_bitrate args, arg_sr := arg_samplerate args,
                  arg_ch := arg_channels args\<rparr>) (w_files w)"
  using assms
  by (auto simp: main_def Let_def process_files_run_jobs
           split: if_splits option.splits sum.splits)

text \<open>
  C9. In a completed run under the voice preset with no explicit low-pass
  option, once a job resolves a bitrate of at most 24000 bits per second, the
  shared options object holds a low-pass of 8000 after that job and after
  every later one, and that job and every later job that reaches the encoder
  is encoded with the single low-pass stage at 8000 Hz, whatever its own
  bitrate is.
\<close>

theorem C9_lowpass_persists:
  assumes "main args w = Completed s f js"
    and "arg_preset args = ''voice''" and "arg_lp args = None"
    and "i \<le> k" and "k < length js"
    and "jr_bitrate (js ! i) = Some b" and "b \<le> 24000"
  shows "arg_lp (jr_args (js ! k)) = Some 8000
       \<and> (\<forall>c. jr_cmd (js ! k) = Some c \<longrightarrow> lowpass_cutoffs (cmd_af c) = [8000])"
proof -
  from main_jobs [OF assms(1)] obtain pc sf oid ts where
    js: "js = run_jobs pc sf oid
            (args\<lparr>arg_ts := ts, arg_b := arg_bitrate args, arg_sr := arg_samplerate args,
                  arg_ch := arg_channels args\<rparr>) (w_files w)"
    by blast
  have "lp_forced (js ! k)"
    unfolding js
    by (rule run_jobs_voice_lowpass [where i = i and b = b])
       (use assms js in simp_all)
  then show ?thesis by (simp add: lp_forced_def)
qed


lemma size_2500000: "human_to_bytes ''2500000'' = Inr 2500000"
  by (simp add: human_to_bytes_def match_size_def py_float_digits_def scale_def char_eval
        upper_char_def float_of_int_def fl_eval)

lemma two_files_run:
  "tally (main (default_args\<lparr>arg_target_size := Some ''2500000''\<rparr>) (two_files 3000 300))
     = Some (2, 0)"
  "map jr_bitrate (jobs_of (main (default_args\<lparr>arg_target_size := Some ''2500000''\<rparr>)
     (two_files 3000 300))) = [Some 6466, Some 64666]"
  "map (map_option cmd_bitrate \<circ> jr_cmd)
     (jobs_of (main (default_args\<lparr>arg_target_size := Some ''2500000''\<rparr>)
        (two_files 3000 300))) = [Some 6466, Some 64666]"
  by (simp_all add: main_struct job_struct example_defs example_eval size_2500000)

theorem C9_witness:
  "map jr_bitrate (jobs_of (main (default_args\<lparr>arg_target_size := Some ''2500000''\<rparr>)
     (two_files 3000 300))) = [Some 6466, Some 64666]
   \<and> (\<exists>c. jr_cmd (jobs_of (main (default_args\<lparr>arg_target_size := Some ''2500000''\<rparr>)
              (two_files 3000 300)) ! 1) = Some c
          \<and> cmd_bitrate c = 64666 \<and> lowpass_cutoffs (cmd_af c) = [8000])
   \<and> arg_lp (jr_args (jobs_of (main (default_args\<lparr>arg_target_size := Some ''2500000''\<rparr>)
              (two_files 3000 300)) ! 1)) = Some 8000"
proof -
  let ?m = "main (default_args\<lparr>arg_target_size := Some ''2500000''\<rparr>) (two_files 3000 300)"
  from two_files_run(1) obtain s f js where m: "?m = Completed s f js"
    by (cases ?m) simp_all
  from two_files_run(2) m have br: "map jr_bitrate js = [Some 6466, Some 64666]" by simp
  from two_files_run(3) m have cb: "map (map_option cmd_bitrate \<circ> jr_cmd) js
      = [Some 6466, Some 64666]" by simp
  from br have len: "length js = 2" using length_map [of jr_bitrate js] by simp
  from br len have b0: "jr_bitrate (js ! 0) = Some 6466"
    using nth_map [of 0 js jr_bitrate] by simp
  from cb len have "map_option cmd_bitrate (jr_cmd (js ! 1)) = Some 64666"
    using nth_map [of 1 js "map_option cmd_bitrate \<circ> jr_cmd"] by simp
  then obtain c where c: "jr_cmd (js ! 1) = Some c" and cbr: "cmd_bitrate c = 64666" by auto
  have p: "arg_preset (default_args\<lparr>arg_target_size := Some ''2500000''\<rparr>) = ''voice''"
    "arg_lp (default_args\<lparr>arg_target_size := Some ''2500000''\<rparr>) = None"
    by (simp_all add: default_args_def)
  from len have k: "(0::nat) \<le> 1" "1 < length js" by simp_all
  from C9_lowpass_persists [OF m p k b0] c
  have "arg_lp (jr_args (js ! 1)) = Some 8000" "lowpass_cutoffs (cmd_af c) = [8000]" by simp_all
  with m br c cbr two_files_run(2) show ?thesis by simp
qed


end
